theory Spec2Isabelle
  imports Main "HOL-Library.Word"
begin

unbundle bit_operations_syntax

section \<open>Room shapes: \<open>Room.Info.Shapes\<close> and the \<open>DoorWalls\<close> build\<close>

text \<open>
  A wall is the tuple \<open>(min, max, level, dir)\<close> of the source: "min, max on axis, cross
  axis coord, normal direction along cross axis". A door of the catalog is the list
  \<open>[x, y]\<close> to which the build loop appends \<open>True\<close>, so a built door is \<open>(x, y, exists)\<close>.
\<close>

type_synonym wall = "int \<times> int \<times> int \<times> int"
type_synonym door = "int \<times> int \<times> bool"

datatype axis = AxisX | AxisY

datatype error = KeyError | IndexError | TypeError | AttributeError

record shape_raw =
  Doors_raw :: "(int \<times> int) list"
  WallsX :: "wall list"
  WallsY :: "wall list"
  Dims :: "int \<times> int"
  TopLeft :: "int option"
  BaseShape :: "nat option"
  MirrorX :: "nat option"
  MirrorY :: "nat option"

record shape = shape_raw +
  Doors :: "door list"
  DoorWalls :: "(door \<times> wall \<times> axis) list"

definition mk :: "(int \<times> int) list \<Rightarrow> wall list \<Rightarrow> wall list \<Rightarrow> int \<times> int \<Rightarrow> shape_raw" where
  "mk ds wx wy dims =
     \<lparr>Doors_raw = ds, WallsX = wx, WallsY = wy, Dims = dims, TopLeft = None,
      BaseShape = None, MirrorX = None, MirrorY = None\<rparr>"

text \<open>The twelve entries of the \<open>Shapes\<close> dictionary, in the order the source declares them.\<close>

definition Shapes_raw :: "(nat \<times> shape_raw) list" where
  "Shapes_raw =
   [(1, mk [(7, 0), (0, 4), (14, 4), (7, 8)]
          [(0, 14, 0, 1), (0, 14, 8, -1)]
          [(0, 8, 0, 1), (0, 8, 14, -1)] (15, 9)),
    (2, (mk [(0, 4), (14, 4)]
          [(0, 14, 2, 1), (0, 14, 6, -1)]
          [(2, 6, 0, 1), (2, 6, 14, -1)] (15, 5))
          \<lparr>TopLeft := Some 30, BaseShape := Some 1\<rparr>),
    (3, (mk [(7, 0), (7, 8)]
          [(4, 10, 0, 1), (4, 10, 8, -1)]
          [(0, 8, 4, 1), (0, 8, 10, -1)] (7, 9))
          \<lparr>TopLeft := Some 4, BaseShape := Some 1\<rparr>),
    (4, mk [(7, 0), (14, 4), (0, 4), (14, 11), (0, 11), (7, 15)]
          [(0, 14, 0, 1), (0, 14, 15, -1)]
          [(0, 15, 0, 1), (0, 15, 14, -1)] (15, 16)),
    (5, (mk [(7, 0), (7, 15)]
          [(4, 10, 0, 1), (4, 10, 15, -1)]
          [(0, 15, 4, 1), (0, 15, 10, -1)] (7, 16))
          \<lparr>TopLeft := Some 4, BaseShape := Some 4\<rparr>),
    (6, mk [(7, 0), (0, 4), (7, 8), (20, 8), (27, 4), (20, 0)]
          [(0, 27, 0, 1), (0, 27, 8, -1)]
          [(0, 8, 0, 1), (0, 8, 27, -1)] (28, 9)),
    (7, (mk [(0, 4), (27, 4)]
          [(0, 27, 2, 1), (0, 27, 6, -1)]
          [(2, 6, 0, 1), (2, 6, 27, -1)] (28, 5))
          \<lparr>TopLeft := Some 56, BaseShape := Some 6\<rparr>),
    (8, mk [(7, 0), (0, 4), (0, 11), (20, 0), (7, 15), (20, 15), (27, 4), (27, 11)]
          [(0, 27, 0, 1), (0, 27, 15, -1)]
          [(0, 15, 0, 1), (0, 15, 27, -1)] (28, 16)),
    (9, (mk [(20, 0), (27, 4), (7, 15), (20, 15), (13, 4), (0, 11), (27, 11), (7, 7)]
          [(0, 13, 7, 1), (13, 27, 0, 1), (0, 27, 15, -1)]
          [(7, 15, 0, 1), (0, 7, 13, 1), (0, 15, 27, -1)] (28, 16))
          \<lparr>BaseShape := Some 8, MirrorX := Some 10, MirrorY := Some 11\<rparr>),
    (10, (mk [(0, 4), (14, 4), (7, 0), (20, 7), (7, 15), (20, 15), (0, 11), (27, 11)]
          [(0, 14, 0, 1), (14, 27, 7, 1), (0, 27, 15, -1)]
          [(0, 15, 0, 1), (0, 7, 14, -1), (7, 15, 27, -1)] (28, 16))
          \<lparr>BaseShape := Some 8, MirrorX := Some 9, MirrorY := Some 12\<rparr>),
    (11, (mk [(0, 4), (7, 8), (7, 0), (13, 11), (20, 0), (27, 4), (20, 15), (27, 11)]
          [(0, 27, 0, 1), (0, 13, 8, -1), (13, 27, 15, -1)]
          [(0, 8, 0, 1), (8, 15, 13, 1), (0, 15, 27, -1)] (28, 16))
          \<lparr>BaseShape := Some 8, MirrorX := Some 12, MirrorY := Some 9\<rparr>),
    (12, (mk [(0, 4), (7, 0), (20, 0), (14, 11), (27, 4), (7, 15), (0, 11), (20, 8)]
          [(0, 27, 0, 1), (14, 27, 8, -1), (0, 14, 15, -1)]
          [(0, 15, 0, 1), (8, 15, 14, -1), (0, 8, 27, -1)] (28, 16))
          \<lparr>BaseShape := Some 8, MirrorX := Some 11, MirrorY := Some 10\<rparr>)]"

text \<open>
  The build loop that runs once over \<open>Shapes.values()\<close>: every door gets \<open>True\<close>
  appended; the scan of the X walls stops at the first wall the door lies on (\<open>break\<close>),
  the scan of the Y walls records every wall the door lies on.
\<close>

fun scanX :: "door \<Rightarrow> wall list \<Rightarrow> (door \<times> wall \<times> axis) list" where
  "scanX d [] = []"
| "scanX (dx, dy, de) ((w0, w1, w2, w3) # ws) =
     (if dx \<ge> w0 \<and> dx \<le> w1 \<and> dy = w2 then [((dx, dy, de), (w0, w1, w2, w3), AxisX)]
      else scanX (dx, dy, de) ws)"

fun scanY :: "door \<Rightarrow> wall list \<Rightarrow> (door \<times> wall \<times> axis) list" where
  "scanY d [] = []"
| "scanY (dx, dy, de) ((w0, w1, w2, w3) # ws) =
     (if dy \<ge> w0 \<and> dy \<le> w1 \<and> dx = w2
      then ((dx, dy, de), (w0, w1, w2, w3), AxisY) # scanY (dx, dy, de) ws
      else scanY (dx, dy, de) ws)"

fun buildDoorWalls :: "(int \<times> int) list \<Rightarrow> wall list \<Rightarrow> wall list \<Rightarrow> (door \<times> wall \<times> axis) list" where
  "buildDoorWalls [] wx wy = []"
| "buildDoorWalls ((x, y) # ds) wx wy =
     scanX (x, y, True) wx @ scanY (x, y, True) wy @ buildDoorWalls ds wx wy"

definition buildShape :: "shape_raw \<Rightarrow> shape" where
  "buildShape r =
     shape_raw.extend r
       \<lparr>Doors = map (\<lambda>(x, y). (x, y, True)) (Doors_raw r),
        DoorWalls = buildDoorWalls (Doors_raw r) (WallsX r) (WallsY r)\<rparr>"

definition Shapes :: "(nat \<times> shape) list" where
  "Shapes = map (\<lambda>(k, r). (k, buildShape r)) Shapes_raw"

text \<open>\<open>Room.Info.Shapes[val]\<close>: a missing key raises \<open>KeyError\<close>.\<close>

definition shapeData :: "nat \<Rightarrow> error + shape" where
  "shapeData sid = (case map_of Shapes sid of None \<Rightarrow> Inl KeyError | Some sd \<Rightarrow> Inr sd)"

section \<open>\<open>Room.Info\<close>: grid index, bounds, snapping, door adjacency\<close>

definition gridIndex :: "int \<Rightarrow> int \<Rightarrow> int \<Rightarrow> int" where
  "gridIndex x y w = y * w + x"

text \<open>\<open>inFrontOfDoor\<close> returns the first door of \<open>DoorWalls\<close> the cell faces, or \<open>None\<close>.\<close>

fun inFrontOfDoor_loop :: "(door \<times> wall \<times> axis) list \<Rightarrow> int \<Rightarrow> int \<Rightarrow> door option" where
  "inFrontOfDoor_loop [] x y = None"
| "inFrontOfDoor_loop (((dx, dy, de), (w0, w1, w2, w3), a) # rest) x y =
     (if a = AxisX \<and> dx = x \<and> y - dy = w3 then Some (dx, dy, de)
      else if a = AxisY \<and> dy = y \<and> x - dx = w3 then Some (dx, dy, de)
      else inFrontOfDoor_loop rest x y)"

definition inFrontOfDoor :: "shape \<Rightarrow> int \<Rightarrow> int \<Rightarrow> door option" where
  "inFrontOfDoor sd x y = inFrontOfDoor_loop (DoorWalls sd) x y"

text \<open>\<open>_axisBounds(a, c, w)\<close>; \<open>(c > wLvl) - (c < wLvl)\<close> is the sign of \<open>c - wLvl\<close>.\<close>

fun axisBounds :: "int \<Rightarrow> int \<Rightarrow> wall \<Rightarrow> bool" where
  "axisBounds a c (wMin, wMax, wLvl, wDir) =
     (a < wMin \<or> a > wMax \<or>
      ((if c > wLvl then 1 else 0) - (if c < wLvl then 1 else 0)) = wDir)"

definition isInBounds :: "shape \<Rightarrow> int \<Rightarrow> int \<Rightarrow> bool" where
  "isInBounds sd x y =
     (list_all (\<lambda>w. axisBounds x y w) (WallsX sd) \<and> list_all (\<lambda>w. axisBounds y x w) (WallsY sd))"

text \<open>
  \<open>snapToBounds\<close>: the first loop runs over the X walls and assigns \<open>y\<close>, the second over
  the Y walls and assigns \<open>x\<close>; each test reads the variables as they are at that moment.
\<close>

fun snapX :: "wall list \<Rightarrow> int \<Rightarrow> int \<Rightarrow> int \<Rightarrow> int" where
  "snapX [] x y dist = y"
| "snapX (w # ws) x y dist =
     snapX ws x (if \<not> axisBounds x y w then fst (snd (snd w)) + snd (snd (snd w)) * dist else y) dist"

fun snapY :: "wall list \<Rightarrow> int \<Rightarrow> int \<Rightarrow> int \<Rightarrow> int" where
  "snapY [] x y dist = x"
| "snapY (w # ws) x y dist =
     snapY ws (if \<not> axisBounds y x w then fst (snd (snd w)) + snd (snd (snd w)) * dist else x) y dist"

definition snapToBounds :: "shape \<Rightarrow> int \<Rightarrow> int \<Rightarrow> int \<Rightarrow> int \<times> int" where
  "snapToBounds sd x y dist =
     (let y' = snapX (WallsX sd) x y dist;
          x' = snapY (WallsY sd) x y' dist
      in (x', y'))"

text \<open>
  Two readings of the snapping rule, for comparison with \<open>snapToBounds\<close>. In the first
  every wall is judged against the point that was passed in; in the second against the
  point as the earlier walls have left it. In both a violated wall assigns
  \<open>level + dir * dist\<close> and a later assignment replaces an earlier one.
\<close>

definition snapTo :: "wall \<Rightarrow> int \<Rightarrow> int" where
  "snapTo w dist = fst (snd (snd w)) + snd (snd (snd w)) * dist"

definition snapToBounds_independent :: "shape \<Rightarrow> int \<Rightarrow> int \<Rightarrow> int \<Rightarrow> int \<times> int" where
  "snapToBounds_independent sd x y dist =
     (foldl (\<lambda>xc w. if axisBounds y x w then xc else snapTo w dist) x (WallsY sd),
      foldl (\<lambda>yc w. if axisBounds x y w then yc else snapTo w dist) y (WallsX sd))"

definition snapToBounds_running :: "shape \<Rightarrow> int \<Rightarrow> int \<Rightarrow> int \<Rightarrow> int \<times> int" where
  "snapToBounds_running sd x y dist =
     (let y' = foldl (\<lambda>yc w. if axisBounds x yc w then yc else snapTo w dist) y (WallsX sd)
      in (foldl (\<lambda>xc w. if axisBounds y' xc w then xc else snapTo w dist) x (WallsY sd), y'))"

text \<open>
  What it means for a \<open>DoorWalls\<close> entry to lie on its wall: the wall is one of the
  shape's walls of the entry's axis, the door's coordinate along the wall is inside the
  wall's span, and its other coordinate is the wall's level.
\<close>

fun onWall :: "shape \<Rightarrow> door \<times> wall \<times> axis \<Rightarrow> bool" where
  "onWall sd ((dx, dy, de), (w0, w1, w2, w3), AxisX) =
     ((w0, w1, w2, w3) \<in> set (WallsX sd) \<and> w0 \<le> dx \<and> dx \<le> w1 \<and> dy = w2)"
| "onWall sd ((dx, dy, de), (w0, w1, w2, w3), AxisY) =
     ((w0, w1, w2, w3) \<in> set (WallsY sd) \<and> w0 \<le> dy \<and> dy \<le> w1 \<and> dx = w2)"

definition doorAssociation :: "shape \<Rightarrow> door \<Rightarrow> bool" where
  "doorAssociation sd d =
     (case filter (\<lambda>t. fst t = d) (DoorWalls sd) of
        [t] \<Rightarrow> onWall sd t
      | _ \<Rightarrow> False)"

definition catalogOk :: "nat \<Rightarrow> bool" where
  "catalogOk sid =
     (case shapeData sid of
        Inl e \<Rightarrow> False
      | Inr sd \<Rightarrow> list_all (doorAssociation sd) (Doors sd))"

section \<open>The scene: entities, rows and doors\<close>

text \<open>
  An \<open>Entity\<close> is a graphics item whose \<open>entity\<close> attribute is an \<open>Entity.Info\<close>. The
  record below holds the fields of both that the placement code reads or writes:
  \<open>entity.x\<close>, \<open>entity.y\<close>, \<open>entity.Type\<close>, the flags \<open>getEntityInfo\<close> derives from the
  entity definitions (\<open>isGridEnt\<close>, \<open>blocksDoor\<close>, \<open>renderRock\<close>, \<open>imgPath\<close>),
  \<open>entity.rockFrame\<close>, and of the item itself \<open>zValue()\<close>, \<open>parentItem()\<close>,
  \<open>stackDepth\<close> and \<open>respawning\<close>. \<open>ident\<close> stands for the identity of the Python object
  (\<open>e is not self\<close>). The parent of an entity is one of \<open>scene.roomRows\<close> or nothing, so
  \<open>parentItem\<close> is the index of the row.
\<close>

record entity =
  ident :: nat
  entity_x :: int
  entity_y :: int
  Type :: int
  isGridEnt :: bool
  blocksDoor :: bool
  renderRock :: bool
  imgPath :: "string option"
  rockFrame :: "int option"
  zValue :: int
  parentItem :: "nat option"
  stackDepth :: int
  respawning :: bool

text \<open>
  What \<open>Entity.Info.getEntityInfo\<close> finds for a type, variant and subtype in the entity
  definitions (which are data outside the source file).
\<close>

record einfo =
  info_Type :: int
  info_isGridEnt :: bool
  info_blocksDoor :: bool
  info_renderRock :: bool
  info_imgPath :: "string option"

text \<open>A \<open>Door\<close> item: \<open>doorItem\<close> is the list \<open>[x, y, exists]\<close>; \<open>exists\<close> reads and writes its last element.\<close>

record door_item =
  doorItem :: door
  blockingCount :: int

definition door_exists :: "door_item \<Rightarrow> bool" where
  "door_exists d = snd (snd (doorItem d))"

definition set_exists :: "door_item \<Rightarrow> bool \<Rightarrow> door_item" where
  "set_exists d v = d\<lparr>doorItem := (fst (doorItem d), fst (snd (doorItem d)), v)\<rparr>"

text \<open>
  The scene: \<open>roomInfo.shapeData\<close>, the dimensions \<open>newRoomSize\<close> takes from
  \<open>roomInfo.dims\<close>, the entities that are children of the \<open>roomHeight\<close> row items (each
  row's children in the order they were put under it), the children of \<open>roomDoorRoot\<close>,
  and a counter for the identities of new objects.
\<close>

record scene =
  roomInfo :: shape
  roomWidth :: int
  roomHeight :: int
  ents :: "entity list"
  doors :: "door_item list"
  nextId :: nat

definition bindE :: "error + 'a \<Rightarrow> ('a \<Rightarrow> error + 'b) \<Rightarrow> error + 'b" where
  "bindE m f = (case m of Inl e \<Rightarrow> Inl e | Inr v \<Rightarrow> f v)"

text \<open>\<open>scene.roomRows[y]\<close>: a list of \<open>roomHeight\<close> rows indexed the Python way.\<close>

definition rowIndex :: "scene \<Rightarrow> int \<Rightarrow> error + nat" where
  "rowIndex sc y =
     (let n = roomHeight sc; j = (if y < 0 then n + y else y)
      in if 0 \<le> j \<and> j < n then Inr (nat j) else Inl IndexError)"

subsection \<open>\<open>Entity.updateBlockedDoor\<close>\<close>

text \<open>
  The loop over \<open>roomDoorRoot.childItems()\<close> stops at the first door whose coordinates
  are those of the blocked door. \<open>val and -1 or 1\<close> is \<open>-1\<close> when \<open>val\<close> holds, else \<open>1\<close>.
\<close>

definition sameCell :: "door_item \<Rightarrow> door \<Rightarrow> bool" where
  "sameCell d blockedDoor =
     (fst (doorItem d) = fst blockedDoor \<and> fst (snd (doorItem d)) = fst (snd blockedDoor))"

definition visitDoor :: "door_item \<Rightarrow> bool \<Rightarrow> bool \<Rightarrow> door_item" where
  "visitDoor d val countOnly =
     (let doorFollowsBlockRule = ((blockingCount d = 0) = door_exists d);
          d1 = d\<lparr>blockingCount := blockingCount d + (if val then - 1 else 1)\<rparr>
      in if doorFollowsBlockRule \<and> door_exists d1 \<and> \<not> countOnly
         then set_exists d1 (blockingCount d1 = 0) else d1)"

fun updateDoors :: "door_item list \<Rightarrow> door \<Rightarrow> bool \<Rightarrow> bool \<Rightarrow> door_item list" where
  "updateDoors [] blockedDoor val countOnly = []"
| "updateDoors (d # ds) blockedDoor val countOnly =
     (if sameCell d blockedDoor then visitDoor d val countOnly # ds
      else d # updateDoors ds blockedDoor val countOnly)"

definition updateBlockedDoor :: "scene \<Rightarrow> entity \<Rightarrow> bool \<Rightarrow> bool \<Rightarrow> scene" where
  "updateBlockedDoor sc self val countOnly =
     (if blocksDoor self then
        (case inFrontOfDoor (roomInfo sc) (entity_x self) (entity_y self) of
           None \<Rightarrow> sc
         | Some blockedDoor \<Rightarrow> sc\<lparr>doors := updateDoors (doors sc) blockedDoor val countOnly\<rparr>)
      else sc)"

subsection \<open>\<open>Entity.updateCoords\<close>\<close>

text \<open>
  \<open>entsInCoord(x, y)\<close> filters the children of \<open>roomRows[y]\<close>; \<open>inCoord r x self\<close> is its
  test on a child of row \<open>r\<close>. The two loops that shift z-values visit every such child
  once, so each is a \<open>map\<close> over the scene's entities.
\<close>

definition inCoord :: "nat \<Rightarrow> int \<Rightarrow> entity \<Rightarrow> entity \<Rightarrow> bool" where
  "inCoord r x self e = (parentItem e = Some r \<and> entity_x e = x \<and> ident e \<noteq> ident self)"

definition entsInCoord :: "scene \<Rightarrow> entity \<Rightarrow> int \<Rightarrow> int \<Rightarrow> error + entity list" where
  "entsInCoord sc self x y =
     bindE (rowIndex sc y) (\<lambda>r. Inr (filter (inCoord r x self) (ents sc)))"

definition shiftUp :: "scene \<Rightarrow> entity \<Rightarrow> int \<Rightarrow> int \<Rightarrow> int \<Rightarrow> error + scene" where
  "shiftUp sc self x y depth =
     bindE (rowIndex sc y) (\<lambda>r.
       Inr (sc\<lparr>ents := map (\<lambda>e. if inCoord r x self e \<and> zValue e \<ge> depth
                                 then e\<lparr>zValue := zValue e + 1\<rparr> else e) (ents sc)\<rparr>))"

definition shiftDown :: "scene \<Rightarrow> entity \<Rightarrow> int \<Rightarrow> error + scene" where
  "shiftDown sc self z =
     bindE (rowIndex sc (entity_y self)) (\<lambda>r.
       Inr (sc\<lparr>ents := map (\<lambda>e. if inCoord r (entity_x self) self e \<and> zValue e > z
                                 then e\<lparr>zValue := zValue e - 1\<rparr> else e) (ents sc)\<rparr>))"

text \<open>
  Writing the item \<open>self\<close> back into the scene. \<open>setParentItem\<close> with the row the item
  is already under changes nothing; under another row the item becomes that row's last
  child.
\<close>

definition putEnt :: "scene \<Rightarrow> entity \<Rightarrow> scene" where
  "putEnt sc self = sc\<lparr>ents := map (\<lambda>e. if ident e = ident self then self else e) (ents sc)\<rparr>"

definition setParentItem :: "scene \<Rightarrow> entity \<Rightarrow> nat \<Rightarrow> scene \<times> entity" where
  "setParentItem sc self r =
     (if parentItem self = Some r then (sc, self)
      else (let self1 = self\<lparr>parentItem := Some r\<rparr>
            in (sc\<lparr>ents := filter (\<lambda>e. ident e \<noteq> ident self) (ents sc) @ [self1]\<rparr>, self1)))"

text \<open>The body of \<open>if (depth < 0 and moving) or depth != z:\<close>.\<close>

definition restack :: "scene \<Rightarrow> entity \<Rightarrow> int \<Rightarrow> int \<Rightarrow> int \<Rightarrow> bool \<Rightarrow> error + scene \<times> entity" where
  "restack sc self x y depth moving =
     bindE (if depth < 0
            then bindE (entsInCoord sc self x y) (\<lambda>es. Inr (int (length es), True))
            else Inr (depth, False)) (\<lambda>(depth1, topOfStack).
     bindE (if \<not> topOfStack then shiftUp sc self x y depth1 else Inr sc) (\<lambda>sc1.
     bindE (if moving then shiftDown sc1 self (zValue self) else Inr sc1) (\<lambda>sc2.
     bindE (rowIndex sc2 y) (\<lambda>r.
       (case setParentItem sc2 self r of (sc3, self1) \<Rightarrow>
          (let self2 = self1\<lparr>zValue := depth1\<rparr> in Inr (putEnt sc3 self2, self2)))))))"

text \<open>
  The end of \<open>updateCoords\<close>: the door the item leaves is updated, the coordinates are
  assigned, and the door it arrives at is updated.
\<close>

definition assignCoords :: "scene \<Rightarrow> entity \<Rightarrow> int \<Rightarrow> int \<Rightarrow> bool \<Rightarrow> scene \<times> entity" where
  "assignCoords sc self x y moving =
     (let sc1 = (if moving then updateBlockedDoor sc self True False else sc);
          self1 = self\<lparr>entity_x := x, entity_y := y\<rparr>;
          sc2 = putEnt sc1 self1;
          sc3 = (if moving then updateBlockedDoor sc2 self1 False False else sc2)
      in (sc3, self1))"

text \<open>
  \<open>updateCoords(x, y, depth)\<close>. An item without a parent is being added: it is put under
  its row, the blocked door is updated, and the function returns. Otherwise the item is
  restacked when \<open>(depth < 0 and moving) or depth != z\<close>, and moved.
\<close>

definition updateCoords :: "scene \<Rightarrow> entity \<Rightarrow> int \<Rightarrow> int \<Rightarrow> int \<Rightarrow> error + scene \<times> entity" where
  "updateCoords sc self x y depth =
     (if parentItem self = None then
        bindE (rowIndex sc y) (\<lambda>r.
          (case setParentItem sc self r of (sc1, self1) \<Rightarrow>
             Inr (updateBlockedDoor sc1 self1 False (respawning self1), self1)))
      else
        (let z = zValue self;
             moving = (\<not> (entity_x self = x \<and> entity_y self = y))
         in bindE (if (depth < 0 \<and> moving) \<or> depth \<noteq> z
                   then restack sc self x y depth moving else Inr (sc, self))
              (\<lambda>(sc1, self1). Inr (assignCoords sc1 self1 x y moving))))"

subsection \<open>\<open>Entity.itemChange\<close>, \<open>Entity.__init__\<close>, \<open>Entity.remove\<close>, the door toggle\<close>

text \<open>
  \<open>itemChange\<close> for a position change of an item that is in the scene. \<open>xi\<close> and \<open>yi\<close> are
  the cell \<open>int(xc / GRID_SIZE + 0.5)\<close>, \<open>int(yc / GRID_SIZE + 0.5)\<close> of the requested
  position, \<open>snap\<close> is the setting \<open>SnapToBounds == "1"\<close>. \<open>getStack\<close> counts the entities
  among Qt's \<open>collidingItems\<close> and the item itself; \<open>colliding\<close> is the number Qt reports.
\<close>

definition clamp :: "int \<Rightarrow> int \<Rightarrow> int" where
  "clamp v n = min (max v 0) (n - 1)"

definition getStack :: "scene \<Rightarrow> entity \<Rightarrow> int \<Rightarrow> scene \<times> entity" where
  "getStack sc self colliding =
     (let self1 = self\<lparr>stackDepth := colliding + 1\<rparr> in (putEnt sc self1, self1))"

definition itemChange :: "scene \<Rightarrow> entity \<Rightarrow> int \<Rightarrow> int \<Rightarrow> bool \<Rightarrow> int \<Rightarrow> error + scene \<times> entity" where
  "itemChange sc self xi yi snap colliding =
     (let x = clamp xi (roomWidth sc); y = clamp yi (roomHeight sc)
      in bindE (if \<not> (x = entity_x self \<and> y = entity_y self)
                then (case (if snap then snapToBounds (roomInfo sc) x y 1 else (x, y)) of
                        (x1, y1) \<Rightarrow> updateCoords sc self x1 y1 (- 1))
                else Inr (sc, self)) (\<lambda>(sc1, self1). Inr (getStack sc1 self1 colliding)))"

text \<open>
  \<open>Entity(x, y, myType, variant, subtype, weight, respawning)\<close>. A new graphics item has
  z-value 0, no parent and position \<open>(0, 0)\<close>. The constructor calls \<open>updateCoords(x, y)\<close>
  and then \<open>updatePosition()\<close>, whose \<open>setPos(x * 26, y * 26)\<close> notifies \<open>itemChange\<close>
  unless the position is unchanged; \<open>int(x * 26 / 26 + 0.5)\<close> is \<open>x\<close> for \<open>x \<ge> 0\<close> and
  \<open>x + 1\<close> below.
\<close>

definition newEntity :: "nat \<Rightarrow> int \<Rightarrow> int \<Rightarrow> einfo \<Rightarrow> bool \<Rightarrow> entity" where
  "newEntity i x y info resp =
     \<lparr>ident = i, entity_x = x, entity_y = y, Type = info_Type info,
      isGridEnt = info_isGridEnt info, blocksDoor = info_blocksDoor info,
      renderRock = info_renderRock info, imgPath = info_imgPath info, rockFrame = None,
      zValue = 0, parentItem = None, stackDepth = 1, respawning = resp\<rparr>"

definition roundCell :: "int \<Rightarrow> int" where
  "roundCell v = (if v < 0 then v + 1 else v)"

definition Entity_init :: "scene \<Rightarrow> int \<Rightarrow> int \<Rightarrow> einfo \<Rightarrow> bool \<Rightarrow> bool \<Rightarrow> int \<Rightarrow> error + scene \<times> entity" where
  "Entity_init sc x y info resp snap colliding =
     bindE (updateCoords (sc\<lparr>nextId := Suc (nextId sc)\<rparr>) (newEntity (nextId sc) x y info resp) x y (- 1))
       (\<lambda>(sc1, self1).
     bindE (if x = 0 \<and> y = 0 then Inr (sc1, self1)
            else itemChange sc1 self1 (roundCell x) (roundCell y) snap colliding) (\<lambda>(sc2, self2).
       (let self3 = self2\<lparr>respawning := False\<rparr> in Inr (putEnt sc2 self3, self3))))"

text \<open>
  \<open>Entity.remove\<close>: the blocked door is updated, then the item leaves its row and the
  scene. An item that is in no scene has \<open>self.scene()\<close> equal to \<open>None\<close>.
\<close>

definition remove_entity :: "scene \<Rightarrow> nat \<Rightarrow> error + scene" where
  "remove_entity sc i =
     (case find (\<lambda>e. ident e = i) (ents sc) of
        None \<Rightarrow> Inl AttributeError
      | Some self \<Rightarrow>
          (let sc1 = updateBlockedDoor sc self True False
           in Inr (sc1\<lparr>ents := filter (\<lambda>e. ident e \<noteq> i) (ents sc1)\<rparr>)))"

text \<open>\<open>Door.mouseDoubleClickEvent\<close> on the \<open>k\<close>-th door: \<open>self.exists = not self.exists\<close>.\<close>

definition mouseDoubleClickEvent :: "scene \<Rightarrow> nat \<Rightarrow> scene" where
  "mouseDoubleClickEvent sc k =
     (if k < length (doors sc)
      then sc\<lparr>doors := (doors sc)[k := set_exists (doors sc ! k) (\<not> door_exists (doors sc ! k))]\<rparr>
      else sc)"


section \<open>Neighbour queries: \<open>RoomScene.getAdjacentEnts\<close> and the entity cache\<close>

text \<open>Indexing a Python list of length \<open>n\<close>: a negative index counts from the end.\<close>

definition pyIndex :: "nat \<Rightarrow> int \<Rightarrow> error + nat" where
  "pyIndex n i =
     (let j = (if i < 0 then int n + i else i)
      in if 0 \<le> j \<and> j < int n then Inr (nat j) else Inl IndexError)"

text \<open>
  \<open>row.childItems()\<close>: Qt returns the children of an item sorted by stacking order, that
  is by z-value and, among equal z-values, in the order they were put under the item.
\<close>

definition childItems :: "scene \<Rightarrow> nat \<Rightarrow> entity list" where
  "childItems sc r = sort_key zValue (filter (\<lambda>e. parentItem e = Some r) (ents sc))"

text \<open>
  The loop of \<open>drawBackground\<close> that refills \<open>entCache\<close>, a list of
  \<open>roomWidth * roomHeight\<close> stacks: every stack is cleared, then each entity of
  \<open>self.items()\<close> is appended to the stack of its cell. The order of \<open>self.items()\<close> is
  Qt's, so the list is an argument.
\<close>

fun fillCache :: "int \<Rightarrow> entity list \<Rightarrow> entity list list \<Rightarrow> error + entity list list" where
  "fillCache w [] cache = Inr cache"
| "fillCache w (item # items) cache =
     bindE (pyIndex (length cache) (gridIndex (entity_x item) (entity_y item) w)) (\<lambda>k.
       fillCache w items (cache[k := cache ! k @ [item]]))"

definition rebuildCache :: "scene \<Rightarrow> entity list \<Rightarrow> error + entity list list" where
  "rebuildCache sc items =
     fillCache (roomWidth sc) items (replicate (nat (roomWidth sc * roomHeight sc)) [])"

text \<open>The \<open>lookup\<close> table of \<open>getAdjacentEnts\<close>: \<open>[L, R, U, D, UL, DL, UR, DR]\<close>.\<close>

definition lookup :: "int \<Rightarrow> nat option list" where
  "lookup i =
     (if i = - 1 then [Some 4, Some 2, Some 6]
      else if i = 0 then [Some 0, None, Some 1]
      else [Some 5, Some 3, Some 7])"

text \<open>
  The branch \<open>useCache=True\<close>: the nested loops over \<open>i\<close> and \<open>j\<close> in \<open>range(-1, 2)\<close>.
  The only test on the neighbour cell is that its index lies inside the cache.
\<close>

fun cachedLoop :: "int \<Rightarrow> int \<Rightarrow> entity list list \<Rightarrow> int \<Rightarrow> int \<Rightarrow> (int \<times> int) list
                     \<Rightarrow> entity list list \<Rightarrow> error + entity list list" where
  "cachedLoop width height entCache x y [] res = Inr res"
| "cachedLoop width height entCache x y ((i, j) # rest) res =
     (case lookup i ! nat (j + 1) of
        None \<Rightarrow> cachedLoop width height entCache x y rest res
      | Some spot \<Rightarrow>
          (let idx = gridIndex (x + j) (y + i) width
           in if idx < 0 \<or> idx \<ge> width * height
              then cachedLoop width height entCache x y rest res
              else bindE (pyIndex (length entCache) idx) (\<lambda>k.
                     cachedLoop width height entCache x y rest (res[spot := entCache ! k]))))"

definition range_pairs :: "(int \<times> int) list" where
  "range_pairs = concat (map (\<lambda>i. map (\<lambda>j. (i, j)) [- 1, 0, 1]) [- 1, 0, 1])"

definition getAdjacentEnts_cache :: "scene \<Rightarrow> entity list list \<Rightarrow> int \<Rightarrow> int \<Rightarrow> error + entity list list" where
  "getAdjacentEnts_cache sc entCache x y =
     cachedLoop (roomWidth sc) (roomHeight sc) entCache x y range_pairs (replicate 8 [])"

text \<open>
  The branch \<open>useCache=False\<close>: the rows \<open>y - 1\<close>, \<open>y\<close>, \<open>y + 1\<close> that exist are scanned
  and every child whose column is \<open>x - 1\<close>, \<open>x\<close> or \<open>x + 1\<close> is appended to its list.
\<close>

fun scanRow :: "int \<Rightarrow> nat option list \<Rightarrow> entity list \<Rightarrow> entity list list \<Rightarrow> entity list list" where
  "scanRow x spots [] res = res"
| "scanRow x spots (item # items) res =
     (let i = (entity_x item - x) + 1
      in if i > - 1 \<and> i < 3
         then (case spots ! nat i of
                 None \<Rightarrow> scanRow x spots items res
               | Some spot \<Rightarrow> scanRow x spots items (res[spot := res ! spot @ [item]]))
         else scanRow x spots items res)"

fun scanRows :: "scene \<Rightarrow> int \<Rightarrow> int \<Rightarrow> int list \<Rightarrow> entity list list \<Rightarrow> entity list list" where
  "scanRows sc x y [] res = res"
| "scanRows sc x y (yc # ycs) res =
     (if yc < 0 \<or> yc \<ge> roomHeight sc then scanRows sc x y ycs res
      else scanRows sc x y ycs (scanRow x (lookup (yc - y)) (childItems sc (nat yc)) res))"

definition getAdjacentEnts_scan :: "scene \<Rightarrow> int \<Rightarrow> int \<Rightarrow> entity list list" where
  "getAdjacentEnts_scan sc x y = scanRows sc x y [y - 1, y, y + 1] (replicate 8 [])"

section \<open>Autotiling: pit frames and rock pairing\<close>

text \<open>
  \<open>getCurrentImg\<close>: the image of the room's graphics override for the entity when there
  is one, else \<open>imgPath\<close>. The override table belongs to the room's background data, so
  it is an argument: \<open>ov e = None\<close> when the entity has no override.
\<close>

definition getCurrentImg :: "(entity \<Rightarrow> string option option) \<Rightarrow> entity \<Rightarrow> string option" where
  "getCurrentImg ov e = (case ov e of None \<Rightarrow> imgPath e | Some img \<Rightarrow> img)"

definition matchInStack :: "(entity \<Rightarrow> string option option) \<Rightarrow> string option \<Rightarrow> entity list \<Rightarrow> bool" where
  "matchInStack ov pitImg stack = list_ex (\<lambda>ent. getCurrentImg ov ent = pitImg) stack"

text \<open>
  The frame rules of \<open>getPitFrame\<close>. After the four bitwise steps every rule is an
  \<open>if\<close> that assigns \<open>F\<close>; they are listed in the order of the source, the rules of the
  two \<open>if hasExtraFrames:\<close> blocks guarded by \<open>X\<close>.
\<close>

definition pitRules :: "bool \<Rightarrow> bool \<Rightarrow> bool \<Rightarrow> bool \<Rightarrow> bool \<Rightarrow> bool \<Rightarrow> bool \<Rightarrow> bool \<Rightarrow> bool
                          \<Rightarrow> (bool \<times> nat) list" where
  "pitRules X L R U D UL DL UR DR =
     [(U \<and> L \<and> \<not> UL \<and> \<not> R \<and> \<not> D, 17),
      (U \<and> R \<and> \<not> UR \<and> \<not> L \<and> \<not> D, 18),
      (L \<and> D \<and> \<not> DL \<and> \<not> U \<and> \<not> R, 19),
      (R \<and> D \<and> \<not> DR \<and> \<not> L \<and> \<not> U, 20),
      (L \<and> U \<and> R \<and> D \<and> \<not> UL, 21),
      (L \<and> U \<and> R \<and> D \<and> \<not> UR, 22),
      (U \<and> R \<and> D \<and> \<not> L \<and> \<not> UR, 25),
      (L \<and> U \<and> D \<and> \<not> R \<and> \<not> UL, 26),
      (X \<and> U \<and> L \<and> D \<and> UL \<and> \<not> DL, 35),
      (X \<and> U \<and> R \<and> D \<and> UR \<and> \<not> DR, 36),
      (L \<and> U \<and> R \<and> D \<and> \<not> DL \<and> \<not> DR, 24),
      (L \<and> U \<and> R \<and> D \<and> \<not> UR \<and> \<not> UL, 23),
      (L \<and> U \<and> R \<and> UL \<and> \<not> UR \<and> \<not> D, 27),
      (L \<and> U \<and> R \<and> UR \<and> \<not> UL \<and> \<not> D, 28),
      (L \<and> U \<and> R \<and> \<not> D \<and> \<not> UR \<and> \<not> UL, 29),
      (L \<and> R \<and> D \<and> DL \<and> \<not> U \<and> \<not> DR, 30),
      (L \<and> R \<and> D \<and> DR \<and> \<not> U \<and> \<not> DL, 31),
      (L \<and> R \<and> D \<and> \<not> U \<and> \<not> DL \<and> \<not> DR, 32),
      (X \<and> U \<and> R \<and> D \<and> \<not> L \<and> \<not> UR \<and> \<not> DR, 33),
      (X \<and> U \<and> L \<and> D \<and> \<not> R \<and> \<not> UL \<and> \<not> DL, 34),
      (X \<and> U \<and> R \<and> D \<and> L \<and> UL \<and> UR \<and> DL \<and> \<not> DR, 37),
      (X \<and> U \<and> R \<and> D \<and> L \<and> UL \<and> UR \<and> DR \<and> \<not> DL, 38),
      (X \<and> U \<and> R \<and> D \<and> L \<and> \<not> UL \<and> \<not> UR \<and> \<not> DR \<and> \<not> DL, 39),
      (X \<and> U \<and> R \<and> D \<and> L \<and> DL \<and> DR \<and> \<not> UL \<and> \<not> UR, 40),
      (X \<and> U \<and> R \<and> D \<and> L \<and> DL \<and> UR \<and> \<not> UL \<and> \<not> DR, 41),
      (X \<and> U \<and> R \<and> D \<and> L \<and> UL \<and> DR \<and> \<not> DL \<and> \<not> UR, 42),
      (X \<and> U \<and> R \<and> D \<and> L \<and> UL \<and> \<not> DL \<and> \<not> UR \<and> \<not> DR, 43),
      (X \<and> U \<and> R \<and> D \<and> L \<and> UR \<and> \<not> UL \<and> \<not> DL \<and> \<not> DR, 44),
      (X \<and> U \<and> R \<and> D \<and> L \<and> DL \<and> \<not> UL \<and> \<not> UR \<and> \<not> DR, 45),
      (X \<and> U \<and> R \<and> D \<and> L \<and> DR \<and> \<not> UL \<and> \<not> UR \<and> \<not> DL, 46),
      (X \<and> U \<and> R \<and> D \<and> L \<and> DL \<and> DR \<and> \<not> UL \<and> \<not> UR, 47),
      (X \<and> U \<and> R \<and> D \<and> L \<and> DL \<and> UL \<and> \<not> UR \<and> \<not> DR, 48),
      (X \<and> U \<and> R \<and> D \<and> L \<and> DR \<and> UR \<and> \<not> UL \<and> \<not> DL, 49)]"

definition pitFrame :: "bool \<Rightarrow> bool \<Rightarrow> bool \<Rightarrow> bool \<Rightarrow> bool \<Rightarrow> bool \<Rightarrow> bool \<Rightarrow> bool \<Rightarrow> bool \<Rightarrow> nat" where
  "pitFrame hasExtraFrames L R U D UL DL UR DR =
     (let F0 = (0 :: nat);
          F1 = (if L then F0 OR 1 else F0);
          F2 = (if U then F1 OR 2 else F1);
          F3 = (if R then F2 OR 4 else F2);
          F4 = (if D then F3 OR 8 else F3)
      in foldl (\<lambda>F (guard, v). if guard then v else F) F4
           (pitRules hasExtraFrames L R U D UL DL UR DR))"

text \<open>
  \<open>getPitFrame(pitImg)\<close>: the eight stacks come from the cached neighbour query;
  \<open>hasExtraFrames\<close> is \<open>pixmap.height() > 260\<close>, a property of the sprite sheet.
\<close>

definition getPitFrame :: "scene \<Rightarrow> entity list list \<Rightarrow> (entity \<Rightarrow> string option option) \<Rightarrow> entity
                             \<Rightarrow> string option \<Rightarrow> bool \<Rightarrow> error + nat" where
  "getPitFrame sc entCache ov self pitImg hasExtraFrames =
     bindE (getAdjacentEnts_cache sc entCache (entity_x self) (entity_y self)) (\<lambda>adjEnts.
       (case map (matchInStack ov pitImg) adjEnts of
          [L, R, U, D, UL, DL, UR, DR] \<Rightarrow> Inr (pitFrame hasExtraFrames L R U D UL DL UR DR)
        | _ \<Rightarrow> Inl TypeError))"

text \<open>
  \<open>setRockFrame(seed)\<close>. \<open>findMatchInStack\<close> returns the first entity of a stack whose
  image is the rock's; a stack yields a candidate when that entity has no rock frame yet.
\<close>

definition findMatchInStack :: "(entity \<Rightarrow> string option option) \<Rightarrow> string option \<Rightarrow> entity list \<Rightarrow> entity option" where
  "findMatchInStack ov rockImg stack = find (\<lambda>ent. getCurrentImg ov ent = rockImg) stack"

definition unassigned :: "entity option \<Rightarrow> bool" where
  "unassigned m = (case m of None \<Rightarrow> False | Some ent \<Rightarrow> rockFrame ent = None)"

definition rockCandidates :: "(entity \<Rightarrow> string option option) \<Rightarrow> string option
                                \<Rightarrow> entity list \<Rightarrow> entity list \<Rightarrow> entity list \<Rightarrow> string list" where
  "rockCandidates ov rockImg right down downRight =
     (let c0 = [];
          c1 = (if unassigned (findMatchInStack ov rockImg right) then c0 @ [''2x1''] else c0);
          c2 = (if unassigned (findMatchInStack ov rockImg down) then c1 @ [''1x2''] else c1)
      in if length c2 = 2
         then (if unassigned (findMatchInStack ov rockImg downRight) then c2 @ [''2x2''] else c2)
         else c2)"

text \<open>
  The pairing pass as a whole: \<open>None\<close> when \<open>seed & 3 != 0\<close> makes the function return
  before it, else the candidate list handed to \<open>random.choice\<close>.
\<close>

definition pairingCandidates :: "scene \<Rightarrow> entity list list \<Rightarrow> (entity \<Rightarrow> string option option) \<Rightarrow> entity
                                   \<Rightarrow> int \<Rightarrow> error + string list option" where
  "pairingCandidates sc entCache ov self seed =
     (if seed AND 3 \<noteq> 0 then Inr None
      else bindE (getAdjacentEnts_cache sc entCache (entity_x self) (entity_y self)) (\<lambda>adjEnts.
        (case adjEnts of
           [l, right, u, down, ul, dl, ur, downRight] \<Rightarrow>
             Inr (Some (rockCandidates ov (getCurrentImg ov self) right down downRight))
         | _ \<Rightarrow> Inl TypeError)))"

section \<open>Painting: \<open>RoomEditorWidget.tryToPaint\<close>\<close>

definition MAX_STACK_DEPTH :: int where
  "MAX_STACK_DEPTH = 25"

text \<open>
  The editor's state: the entity picked in the palette (\<open>objectToPaint\<close>, whose \<open>ID\<close> is
  the type of the entities it paints) and the set \<open>lastTile\<close> of cells painted during the
  current drag, \<open>None\<close> outside a drag.
\<close>

record editor =
  objectToPaint :: "einfo option"
  lastTile :: "(int \<times> int) list option"

text \<open>
  The loop over the scene's items: \<open>True\<close> when one of its two \<open>return\<close> statements is
  reached.
\<close>

fun paintRefused :: "entity list \<Rightarrow> int \<Rightarrow> int \<Rightarrow> int \<Rightarrow> bool" where
  "paintRefused [] x y paintID = False"
| "paintRefused (i # items) x y paintID =
     (if entity_x i = x \<and> entity_y i = y then
        (if stackDepth i = MAX_STACK_DEPTH then True
         else if Type i > 999 \<and> paintID > 999 then True
         else paintRefused items x y paintID)
      else paintRefused items x y paintID)"

text \<open>
  \<open>tryToPaint(event)\<close>; \<open>cx\<close> and \<open>cy\<close> are \<open>int(x / 26)\<close> and \<open>int(y / 26)\<close> of the clicked
  scene position.
\<close>

definition paintCell :: "scene \<Rightarrow> int \<Rightarrow> int \<Rightarrow> bool \<Rightarrow> int \<times> int" where
  "paintCell sc cx cy snap =
     (let x = clamp cx (roomWidth sc); y = clamp cy (roomHeight sc)
      in if snap then snapToBounds (roomInfo sc) x y 1 else (x, y))"

definition tryToPaint :: "scene \<Rightarrow> editor \<Rightarrow> int \<Rightarrow> int \<Rightarrow> bool \<Rightarrow> int \<Rightarrow> error + scene \<times> editor" where
  "tryToPaint sc ed cx cy snap colliding =
     (case objectToPaint ed of
        None \<Rightarrow> Inr (sc, ed)
      | Some paint \<Rightarrow>
          (case paintCell sc cx cy snap of
             (x, y) \<Rightarrow>
               if paintRefused (ents sc) x y (info_Type paint) then Inr (sc, ed)
               else (case lastTile ed of
                       None \<Rightarrow> Inl TypeError
                     | Some tiles \<Rightarrow>
                         if (x, y) \<in> set tiles then Inr (sc, ed)
                         else bindE (Entity_init sc x y paint False snap colliding) (\<lambda>(sc1, en).
                              bindE (if isGridEnt en then updateCoords sc1 en x y 0 else Inr (sc1, en))
                                (\<lambda>(sc2, en2). Inr (sc2, ed\<lparr>lastTile := Some ((x, y) # tiles)\<rparr>))))))"

section \<open>Rooms and edit sequences\<close>

text \<open>
  An empty scene for a shape: \<open>RoomScene.newRoomSize\<close> takes the dimensions from
  \<open>roomInfo.dims\<close> (those of the base shape when the shape has one) and \<open>Room.clearDoors\<close>
  makes one \<open>Door\<close> for each door of \<open>Room.Info.makeNewDoors\<close>.
\<close>

definition newRoomSize :: "nat \<Rightarrow> error + scene" where
  "newRoomSize sid =
     bindE (shapeData sid) (\<lambda>sd.
     bindE (case BaseShape sd of None \<Rightarrow> Inr sd | Some bs \<Rightarrow> shapeData bs) (\<lambda>base.
       Inr \<lparr>roomInfo = sd, roomWidth = fst (Dims base), roomHeight = snd (Dims base), ents = [],
            doors = map (\<lambda>d. \<lparr>doorItem = d, blockingCount = 0\<rparr>) (Doors sd), nextId = 0\<rparr>))"

text \<open>
  Two entity definitions as \<open>getEntityInfo\<close> would read them: an ordinary entity (which
  blocks doors, the default) and a rock, a grid entity drawn with rock tiling.
\<close>

definition plainEntity :: einfo where
  "plainEntity = \<lparr>info_Type = 10, info_isGridEnt = False, info_blocksDoor = True,
                  info_renderRock = False, info_imgPath = Some ''fly.png''\<rparr>"

definition rockEntity :: einfo where
  "rockEntity = \<lparr>info_Type = 1000, info_isGridEnt = True, info_blocksDoor = True,
                 info_renderRock = True, info_imgPath = Some ''rocks.png''\<rparr>"

text \<open>
  Edits strung together, with snapping switched off and Qt reporting no collision.
  \<open>insert_entity\<close> is the constructor as the editor and the room loader call it;
  \<open>insertN\<close> repeats it on one cell; \<open>moveTo\<close> is \<open>itemChange\<close> on the entity with a
  given identity; \<open>depthsAt\<close> lists the z-values found in a cell.
\<close>

definition insert_entity :: "scene \<Rightarrow> int \<Rightarrow> int \<Rightarrow> einfo \<Rightarrow> bool \<Rightarrow> error + scene" where
  "insert_entity sc x y info resp =
     bindE (Entity_init sc x y info resp False 0) (\<lambda>(sc1, en). Inr sc1)"

fun insertN :: "nat \<Rightarrow> scene \<Rightarrow> int \<Rightarrow> int \<Rightarrow> einfo \<Rightarrow> bool \<Rightarrow> error + scene" where
  "insertN 0 sc x y info resp = Inr sc"
| "insertN (Suc n) sc x y info resp =
     bindE (insert_entity sc x y info resp) (\<lambda>sc1. insertN n sc1 x y info resp)"

definition moveTo :: "scene \<Rightarrow> nat \<Rightarrow> int \<Rightarrow> int \<Rightarrow> error + scene" where
  "moveTo sc i xi yi =
     (case find (\<lambda>e. ident e = i) (ents sc) of
        None \<Rightarrow> Inl AttributeError
      | Some self \<Rightarrow> bindE (itemChange sc self xi yi False 0) (\<lambda>(sc1, en). Inr sc1))"

text \<open>
  The room loader constructs the entities of a cell one after the other with
  \<open>respawning=True\<close>; \<open>cs\<close> lists, for each constructor call, the number of colliding
  entities Qt reports to its \<open>getStack\<close>.
\<close>

fun loadStack :: "scene \<Rightarrow> int \<Rightarrow> int \<Rightarrow> einfo \<Rightarrow> int list \<Rightarrow> error + scene" where
  "loadStack sc x y info [] = Inr sc"
| "loadStack sc x y info (c # cs) =
     bindE (Entity_init sc x y info True False c) (\<lambda>(sc1, en). loadStack sc1 x y info cs)"

definition entsAt :: "scene \<Rightarrow> int \<Rightarrow> int \<Rightarrow> entity list" where
  "entsAt sc x y = filter (\<lambda>e. entity_x e = x \<and> entity_y e = y) (ents sc)"

definition depthsAt :: "scene \<Rightarrow> int \<Rightarrow> int \<Rightarrow> int list" where
  "depthsAt sc x y = map zValue (entsAt sc x y)"


text \<open>
  \<open>neverOpened sc sc'\<close>: the two scenes have the same number of doors, and every door
  that is closed (\<open>exists\<close> false) in \<open>sc\<close> is closed in \<open>sc'\<close>.
\<close>

definition neverOpened :: "scene \<Rightarrow> scene \<Rightarrow> bool" where
  "neverOpened sc sc' =
     list_all2 (\<lambda>d d'. \<not> door_exists d \<longrightarrow> \<not> door_exists d') (doors sc) (doors sc')"


text \<open>
  Two properties of a neighbour stack, for the statement about rock pairing: the first
  placement of the stack whose image matches has no frame yet; no placement of the stack
  whose image matches is without a frame.
\<close>

definition firstMatchFree :: "(entity \<Rightarrow> string option option) \<Rightarrow> string option \<Rightarrow> entity list \<Rightarrow> bool" where
  "firstMatchFree ov img stack =
     (\<exists>pre ent post. stack = pre @ ent # post \<and>
        (\<forall>p \<in> set pre. getCurrentImg ov p \<noteq> img) \<and>
        getCurrentImg ov ent = img \<and> rockFrame ent = None)"

definition noMatchFree :: "(entity \<Rightarrow> string option option) \<Rightarrow> string option \<Rightarrow> entity list \<Rightarrow> bool" where
  "noMatchFree ov img stack =
     list_all (\<lambda>ent. getCurrentImg ov ent = img \<longrightarrow> rockFrame ent \<noteq> None) stack"

text \<open>
  \<open>hover\<close>: the mouse enters the entity with identity \<open>i\<close>; \<open>hoverEnterEvent\<close> calls
  \<open>createWeightPopup\<close>, which starts with \<open>getStack\<close>.
\<close>

definition hover :: "scene \<Rightarrow> nat \<Rightarrow> int \<Rightarrow> error + scene" where
  "hover sc i colliding =
     (case find (\<lambda>e. ident e = i) (ents sc) of
        None \<Rightarrow> Inl AttributeError
      | Some self \<Rightarrow> Inr (fst (getStack sc self colliding)))"



section \<open>The shape catalog\<close>

lemma catalog_all: "list_all catalogOk [1..<13]"
  by code_simp

text \<open>
  Claim C8. For every shape id from 1 to 12 the catalog holds a shape, and for every door
  of that shape the build has recorded exactly one \<open>(door, wall, axis)\<close> entry; the wall of
  that entry is a wall of the shape on the entry's axis, the door's coordinate along the
  wall lies within the wall's span and its other coordinate equals the wall's level.
\<close>

theorem door_wall_association:
  assumes "1 \<le> sid" and "sid \<le> 12"
  shows "\<exists>sd. shapeData sid = Inr sd \<and>
           (\<forall>d \<in> set (Doors sd). \<exists>t. filter (\<lambda>t. fst t = d) (DoorWalls sd) = [t] \<and> onWall sd t)"
proof -
  have "sid \<in> set [1..<13]" using assms by simp
  with catalog_all have ok: "catalogOk sid" by (simp only: list_all_iff)
  then obtain sd where sd: "shapeData sid = Inr sd" and all: "list_all (doorAssociation sd) (Doors sd)"
    by (auto simp: catalogOk_def split: sum.splits)
  have "\<exists>t. filter (\<lambda>t. fst t = d) (DoorWalls sd) = [t] \<and> onWall sd t" if "d \<in> set (Doors sd)" for d
  proof -
    from all that have "doorAssociation sd d" by (simp add: list_all_iff)
    then show ?thesis
      by (auto simp: doorAssociation_def split: list.splits)
  qed
  with sd show ?thesis by blast
qed

theorem door_wall_association_witness:
  "\<exists>sd. shapeData 1 = Inr sd \<and>
     filter (\<lambda>t. fst t = (7, 0, True)) (DoorWalls sd) = [((7, 0, True), (0, 14, 0, 1), AxisX)] \<and>
     onWall sd ((7, 0, True), (0, 14, 0, 1), AxisX)"
proof -
  from door_wall_association [of 1] obtain sd where
    sd: "shapeData 1 = Inr sd" and
    all: "\<forall>d \<in> set (Doors sd). \<exists>t. filter (\<lambda>t. fst t = d) (DoorWalls sd) = [t] \<and> onWall sd t"
    by auto
  have eq: "sd = buildShape (the (map_of Shapes_raw 1))"
    using sd by (simp add: shapeData_def Shapes_def Shapes_raw_def split: option.splits)
  have "(7, 0, True) \<in> set (Doors sd)" unfolding eq by code_simp
  with all obtain t where t: "filter (\<lambda>t. fst t = (7, 0, True)) (DoorWalls sd) = [t]" "onWall sd t" by blast
  have "filter (\<lambda>t. fst t = (7, 0, True)) (DoorWalls sd) = [((7, 0, True), (0, 14, 0, 1), AxisX)]"
    unfolding eq by code_simp
  with t sd show ?thesis by auto
qed

section \<open>Snapping to the room's bounds\<close>

lemma snapX_foldl:
  "snapX ws x y dist = foldl (\<lambda>yc w. if axisBounds x yc w then yc else snapTo w dist) y ws"
  by (induction ws arbitrary: y) (simp_all add: snapTo_def)

lemma snapY_foldl:
  "snapY ws x y dist = foldl (\<lambda>xc w. if axisBounds y xc w then xc else snapTo w dist) x ws"
  by (induction ws arbitrary: x) (simp_all add: snapTo_def)

text \<open>
  Claim C9, as read from the claim: every wall is judged against the point passed in.
  In the mirrored L room (shape 9) the cell \<open>(5, 3)\<close> lies in the cut-out corner. The first
  X wall moves \<open>y\<close> to 8; the Y wall \<open>(0, 7, 13, 1)\<close> is violated by the input row 3 but
  not by row 8, so \<open>snapToBounds\<close> leaves \<open>x = 5\<close> where the independent reading gives 14.
\<close>

theorem snapToBounds_not_independent:
  "(case shapeData 9 of
      Inl e \<Rightarrow> False
    | Inr sd \<Rightarrow> snapToBounds sd 5 3 1 = (5, 8) \<and> snapToBounds_independent sd 5 3 1 = (14, 8))"
  by code_simp

text \<open>
  Claim C9, amended. \<open>snapToBounds\<close> visits the X walls in their declared order and judges
  each against \<open>x\<close> and the current \<open>y\<close>, a violated wall setting \<open>y = level + dir * dist\<close>;
  then it visits the Y walls in their declared order and judges each against the \<open>y\<close> the
  first pass has left and the current \<open>x\<close>, a violated wall setting
  \<open>x = level + dir * dist\<close>. The last assignment made to a coordinate is the one returned:
  a wall appended to the X walls decides \<open>y\<close> when the \<open>y\<close> reached before it violates it,
  and likewise a wall appended to the Y walls decides \<open>x\<close>.
\<close>

theorem snapToBounds_running_point:
  "snapToBounds sd x y dist = snapToBounds_running sd x y dist \<and>
   snd (snapToBounds (sd\<lparr>WallsX := ws @ [w]\<rparr>) x y dist) =
     (let y' = snd (snapToBounds (sd\<lparr>WallsX := ws\<rparr>) x y dist)
      in if axisBounds x y' w then y' else snapTo w dist) \<and>
   fst (snapToBounds (sd\<lparr>WallsY := ws @ [w]\<rparr>) x y dist) =
     (let y' = snd (snapToBounds sd x y dist);
          x' = fst (snapToBounds (sd\<lparr>WallsY := ws\<rparr>) x y dist)
      in if axisBounds y' x' w then x' else snapTo w dist)"
  by (simp add: snapToBounds_def snapToBounds_running_def snapX_foldl snapY_foldl Let_def)

theorem snapToBounds_running_point_witness:
  "(case shapeData 9 of
      Inl e \<Rightarrow> False
    | Inr sd \<Rightarrow> snapToBounds_running sd 5 3 1 = (5, 8) \<and>
               snapToBounds_running sd 5 3 1 = snapToBounds sd 5 3 1)"
  using snapToBounds_running_point by code_simp


section \<open>The door-blocking tracker\<close>

subsection \<open>Closed doors stay closed\<close>

lemma neverOpened_refl: "neverOpened sc sc"
  by (simp add: neverOpened_def list_all2_refl)

lemma neverOpened_trans: "neverOpened a b \<Longrightarrow> neverOpened b c \<Longrightarrow> neverOpened a c"
  using list_all2_trans[of "\<lambda>d d'. \<not> door_exists d \<longrightarrow> \<not> door_exists d'"
      "\<lambda>d d'. \<not> door_exists d \<longrightarrow> \<not> door_exists d'"
      "\<lambda>d d'. \<not> door_exists d \<longrightarrow> \<not> door_exists d'" "doors a" "doors b" "doors c"]
  by (auto simp: neverOpened_def)

lemma neverOpened_doors: "doors sc' = doors sc \<Longrightarrow> neverOpened sc sc'"
  by (simp add: neverOpened_def list_all2_refl)

lemma visitDoor_closed: "\<not> door_exists d \<Longrightarrow> \<not> door_exists (visitDoor d val countOnly)"
  by (simp add: visitDoor_def door_exists_def set_exists_def Let_def)

lemma updateDoors_closed:
  "list_all2 (\<lambda>d d'. \<not> door_exists d \<longrightarrow> \<not> door_exists d') ds (updateDoors ds bd val countOnly)"
  by (induction ds) (auto simp: visitDoor_closed list_all2_refl)

lemma updateBlockedDoor_closed: "neverOpened sc (updateBlockedDoor sc self val countOnly)"
  by (auto simp: updateBlockedDoor_def neverOpened_def updateDoors_closed list_all2_refl split: option.splits)

lemma updateBlockedDoor_ents [simp]: "ents (updateBlockedDoor sc self val c) = ents sc"
  by (simp add: updateBlockedDoor_def split: option.splits)

lemma putEnt_doors [simp]: "doors (putEnt sc e) = doors sc"
  by (simp add: putEnt_def)

lemma setParentItem_doors: "setParentItem sc self r = (sc', e') \<Longrightarrow> doors sc' = doors sc"
  by (auto simp: setParentItem_def Let_def split: if_splits)

lemma shiftUp_doors: "shiftUp sc self x y d = Inr sc' \<Longrightarrow> doors sc' = doors sc"
  by (auto simp: shiftUp_def bindE_def split: sum.splits)

lemma shiftDown_doors: "shiftDown sc self z = Inr sc' \<Longrightarrow> doors sc' = doors sc"
  by (auto simp: shiftDown_def bindE_def split: sum.splits)

lemma restack_doors: "restack sc self x y depth moving = Inr (sc', e') \<Longrightarrow> doors sc' = doors sc"
  unfolding restack_def bindE_def
  by (auto simp: Let_def split: sum.splits if_splits prod.splits dest!: shiftUp_doors shiftDown_doors setParentItem_doors)

lemma neverOpened_putEnt: "neverOpened a b \<Longrightarrow> neverOpened a (putEnt b e)"
  by (simp add: neverOpened_def)

lemma neverOpened_update: "neverOpened a b \<Longrightarrow> neverOpened a (updateBlockedDoor b e v c)"
  by (erule neverOpened_trans) (rule updateBlockedDoor_closed)

lemma assignCoords_closed: "assignCoords sc self x y moving = (sc', e') \<Longrightarrow> neverOpened sc sc'"
  by (auto simp: assignCoords_def Let_def
           intro!: neverOpened_putEnt neverOpened_update neverOpened_refl)

lemma updateCoords_closed:
  assumes "updateCoords sc self x y depth = Inr (sc', e')"
  shows "neverOpened sc sc'"
proof (cases "parentItem self = None")
  case True
  with assms obtain r sc1 self1 where
    sp: "setParentItem sc self r = (sc1, self1)" and
    res: "sc' = updateBlockedDoor sc1 self1 False (respawning self1)"
    by (auto simp: updateCoords_def bindE_def split: sum.splits prod.splits)
  from sp have "neverOpened sc sc1" by (auto dest: setParentItem_doors intro: neverOpened_doors)
  then show ?thesis unfolding res
    by (rule neverOpened_trans) (rule updateBlockedDoor_closed)
next
  case False
  with assms obtain sc1 self1 moving where
    rs: "restack sc self x y depth moving = Inr (sc1, self1) \<or> (sc1, self1) = (sc, self)" and
    k: "assignCoords sc1 self1 x y moving = (sc', e')"
    by (auto simp: updateCoords_def bindE_def Let_def split: sum.splits prod.splits if_splits)
  from rs have "neverOpened sc sc1"
    by (auto dest: restack_doors intro: neverOpened_doors neverOpened_refl)
  moreover from k have "neverOpened sc1 sc'" by (rule assignCoords_closed)
  ultimately show ?thesis by (rule neverOpened_trans)
qed

lemma getStack_doors: "getStack sc self c = (sc', e') \<Longrightarrow> doors sc' = doors sc"
  by (auto simp: getStack_def Let_def)

lemma itemChange_closed:
  assumes "itemChange sc self xi yi snap colliding = Inr (sc', e')"
  shows "neverOpened sc sc'"
proof -
  from assms obtain sc1 self1 where
    a: "(if \<not> (clamp xi (roomWidth sc) = entity_x self \<and> clamp yi (roomHeight sc) = entity_y self)
         then (case (if snap then snapToBounds (roomInfo sc) (clamp xi (roomWidth sc)) (clamp yi (roomHeight sc)) 1
                     else (clamp xi (roomWidth sc), clamp yi (roomHeight sc))) of
                 (x1, y1) \<Rightarrow> updateCoords sc self x1 y1 (- 1))
         else Inr (sc, self)) = Inr (sc1, self1)" and
    b: "getStack sc1 self1 colliding = (sc', e')"
    by (auto simp: itemChange_def bindE_def Let_def split: sum.splits prod.splits)
  from a have "neverOpened sc sc1"
    by (auto split: if_splits prod.splits dest: updateCoords_closed intro: neverOpened_refl)
  moreover from b have "neverOpened sc1 sc'" by (auto dest: getStack_doors intro: neverOpened_doors)
  ultimately show ?thesis by (rule neverOpened_trans)
qed

lemma Entity_init_closed:
  assumes "Entity_init sc x y info resp snap colliding = Inr (sc', e')"
  shows "neverOpened sc sc'"
proof -
  let ?sc0 = "sc\<lparr>nextId := Suc (nextId sc)\<rparr>"
  from assms obtain sc1 self1 sc2 self2 where
    a: "updateCoords ?sc0 (newEntity (nextId sc) x y info resp) x y (- 1) = Inr (sc1, self1)" and
    b: "(if x = 0 \<and> y = 0 then Inr (sc1, self1)
         else itemChange sc1 self1 (roundCell x) (roundCell y) snap colliding) = Inr (sc2, self2)" and
    c: "sc' = putEnt sc2 (self2\<lparr>respawning := False\<rparr>)"
    by (auto simp: Entity_init_def bindE_def Let_def split: sum.splits prod.splits)
  have "neverOpened sc ?sc0" by (simp add: neverOpened_doors)
  moreover from a have "neverOpened ?sc0 sc1" by (rule updateCoords_closed)
  moreover from b have "neverOpened sc1 sc2"
    by (auto split: if_splits dest: itemChange_closed intro: neverOpened_refl)
  moreover have "neverOpened sc2 sc'" by (simp add: c neverOpened_doors)
  ultimately show ?thesis by (blast intro: neverOpened_trans)
qed

lemma remove_entity_closed:
  assumes "remove_entity sc i = Inr sc'"
  shows "neverOpened sc sc'"
proof -
  from assms obtain self where
    c: "sc' = (updateBlockedDoor sc self True False)\<lparr>ents := filter (\<lambda>e. ident e \<noteq> i) (ents (updateBlockedDoor sc self True False))\<rparr>"
    by (auto simp: remove_entity_def Let_def split: option.splits)
  have "neverOpened (updateBlockedDoor sc self True False) sc'"
    by (simp add: c neverOpened_doors)
  with updateBlockedDoor_closed show ?thesis by (rule neverOpened_trans)
qed

lemma tryToPaint_closed:
  assumes "tryToPaint sc ed cx cy snap colliding = Inr (sc', ed')"
  shows "neverOpened sc sc'"
  using assms
  by (auto simp: tryToPaint_def bindE_def split: option.splits prod.splits if_splits sum.splits
           intro: neverOpened_refl dest!: Entity_init_closed updateCoords_closed
           elim: neverOpened_trans)

lemma mouseDoubleClickEvent_opens:
  "k < length (doors sc) \<Longrightarrow> \<not> door_exists (doors sc ! k) \<Longrightarrow>
   door_exists (doors (mouseDoubleClickEvent sc k) ! k)"
  by (simp add: mouseDoubleClickEvent_def door_exists_def set_exists_def)

text \<open>
  Claim C3. No mutation the tracker processes opens a door: the tracker's own step
  \<open>updateBlockedDoor\<close> (removing or adding, count-only or not) leaves every closed door
  closed, and so does every operation that calls it, whenever it returns: the
  constructor (insert), \<open>remove\<close>, \<open>updateCoords\<close> and \<open>itemChange\<close> (move) and
  \<open>tryToPaint\<close>. The manual toggle is what opens a closed door.
\<close>

theorem tracker_never_opens:
  "neverOpened sc (updateBlockedDoor sc self val countOnly) \<and>
   (Entity_init sc x y info resp snap colliding = Inr (sc1, e1) \<longrightarrow> neverOpened sc sc1) \<and>
   (remove_entity sc i = Inr sc2 \<longrightarrow> neverOpened sc sc2) \<and>
   (updateCoords sc self x y depth = Inr (sc3, e3) \<longrightarrow> neverOpened sc sc3) \<and>
   (itemChange sc self x y snap colliding = Inr (sc4, e4) \<longrightarrow> neverOpened sc sc4) \<and>
   (tryToPaint sc ed x y snap colliding = Inr (sc5, ed5) \<longrightarrow> neverOpened sc sc5) \<and>
   (k < length (doors sc) \<and> \<not> door_exists (doors sc ! k) \<longrightarrow>
      door_exists (doors (mouseDoubleClickEvent sc k) ! k))"
proof (intro conjI impI)
  show "neverOpened sc (updateBlockedDoor sc self val countOnly)"
    by (rule updateBlockedDoor_closed)
  show "neverOpened sc sc1" if "Entity_init sc x y info resp snap colliding = Inr (sc1, e1)"
    using that by (rule Entity_init_closed)
  show "neverOpened sc sc2" if "remove_entity sc i = Inr sc2"
    using that by (rule remove_entity_closed)
  show "neverOpened sc sc3" if "updateCoords sc self x y depth = Inr (sc3, e3)"
    using that by (rule updateCoords_closed)
  show "neverOpened sc sc4" if "itemChange sc self x y snap colliding = Inr (sc4, e4)"
    using that by (rule itemChange_closed)
  show "neverOpened sc sc5" if "tryToPaint sc ed x y snap colliding = Inr (sc5, ed5)"
    using that by (rule tryToPaint_closed)
  show "door_exists (doors (mouseDoubleClickEvent sc k) ! k)"
    if "k < length (doors sc) \<and> \<not> door_exists (doors sc ! k)"
    using that by (simp add: mouseDoubleClickEvent_opens)
qed

subsection \<open>The blocking scenario\<close>

lemma sameCell_visitDoor [simp]: "sameCell (visitDoor d v c) bd = sameCell d bd"
  by (simp add: sameCell_def visitDoor_def set_exists_def Let_def)

lemma sameCell_set_exists [simp]: "sameCell (set_exists d v) bd = sameCell d bd"
  by (simp add: sameCell_def set_exists_def)

lemma updateDoors_nth:
  "k < length ds \<Longrightarrow> sameCell (ds ! k) bd \<Longrightarrow> (\<forall>j<k. \<not> sameCell (ds ! j) bd) \<Longrightarrow>
   updateDoors ds bd v c = ds[k := visitDoor (ds ! k) v c]"
proof (induction ds arbitrary: k)
  case Nil
  then show ?case by simp
next
  case (Cons d ds)
  show ?case
  proof (cases k)
    case 0
    with Cons.prems show ?thesis by simp
  next
    case (Suc k')
    with Cons.prems have nd: "\<not> sameCell d bd" by auto
    from Suc Cons.prems have "\<forall>j<k'. \<not> sameCell (ds ! j) bd" by auto
    with Cons.IH [of k'] Suc Cons.prems have "updateDoors ds bd v c = ds[k' := visitDoor (ds ! k') v c]"
      by simp
    with nd Suc show ?thesis by simp
  qed
qed

lemma find_fresh_append:
  "\<forall>e\<in>set es. ident e \<noteq> i \<Longrightarrow> ident a = i \<Longrightarrow> find (\<lambda>e. ident e = i) (es @ [a]) = Some a"
  by (induction es) auto

lemma filter_fresh: "\<forall>e\<in>set es. ident e \<noteq> i \<Longrightarrow> filter (\<lambda>e. ident e \<noteq> i) es = es"
  by (induction es) auto

lemma map_id_fresh:
  "\<forall>e\<in>set es. ident e \<noteq> i \<Longrightarrow> map (\<lambda>e. if ident e = i then b else e) es = es"
  by (induction es) auto

lemma putEnt_last:
  "ents sc = es @ [a] \<Longrightarrow> \<forall>e\<in>set es. ident e \<noteq> ident b \<Longrightarrow> ident a = ident b \<Longrightarrow>
   putEnt sc b = sc\<lparr>ents := es @ [b]\<rparr>"
  by (simp add: putEnt_def map_id_fresh)

lemma Entity_init_inside:
  assumes inside: "0 \<le> x" "x < roomWidth sc" "0 \<le> y" "y < roomHeight sc"
    and fresh: "\<forall>e\<in>set (ents sc). ident e < nextId sc"
  shows "\<exists>sc1 e1. Entity_init sc x y info resp snap colliding = Inr (sc1, e1) \<and>
           doors sc1 = doors (updateBlockedDoor sc (newEntity (nextId sc) x y info resp) False resp) \<and>
           roomInfo sc1 = roomInfo sc \<and> roomWidth sc1 = roomWidth sc \<and> roomHeight sc1 = roomHeight sc \<and>
           nextId sc1 = Suc (nextId sc) \<and> ents sc1 = ents sc @ [e1] \<and>
           ident e1 = nextId sc \<and> entity_x e1 = x \<and> entity_y e1 = y \<and>
           blocksDoor e1 = info_blocksDoor info \<and> zValue e1 = 0"
proof -
  define E0 where "E0 = newEntity (nextId sc) x y info resp"
  define E1 where "E1 = E0\<lparr>parentItem := Some (nat y)\<rparr>"
  define E2 where "E2 = (if x = 0 \<and> y = 0 then E1 else E1\<lparr>stackDepth := colliding + 1\<rparr>)"
  define E3 where "E3 = E2\<lparr>respawning := False\<rparr>"
  define scA where
    "scA = updateBlockedDoor (sc\<lparr>nextId := Suc (nextId sc), ents := ents sc @ [E1]\<rparr>) E1 False resp"
  have ne: "\<forall>e\<in>set (ents sc). ident e \<noteq> nextId sc" using fresh by auto
  have id: "ident E1 = nextId sc" "ident E2 = nextId sc" "ident E3 = nextId sc"
    by (simp_all add: E3_def E2_def E1_def E0_def newEntity_def)
  have xy: "entity_x E1 = x" "entity_y E1 = y" "respawning E1 = resp" "parentItem E0 = None"
    by (simp_all add: E1_def E0_def newEntity_def)
  have step1: "updateCoords (sc\<lparr>nextId := Suc (nextId sc)\<rparr>) E0 x y (- 1) = Inr (scA, E1)"
    using inside ne
    by (simp add: updateCoords_def xy rowIndex_def setParentItem_def bindE_def Let_def
                  scA_def E1_def filter_fresh E0_def newEntity_def)
  have entsA: "ents scA = ents sc @ [E1]" and dimsA: "roomWidth scA = roomWidth sc" "roomHeight scA = roomHeight sc"
    by (simp_all add: scA_def updateBlockedDoor_def split: option.splits)
  have cl: "clamp (roundCell x) (roomWidth sc) = x" "clamp (roundCell y) (roomHeight sc) = y"
    using inside by (auto simp: clamp_def roundCell_def)
  have step2: "(if x = 0 \<and> y = 0 then Inr (scA, E1)
                else itemChange scA E1 (roundCell x) (roundCell y) snap colliding)
               = Inr (scA\<lparr>ents := ents sc @ [E2]\<rparr>, E2)"
  proof (cases "x = 0 \<and> y = 0")
    case True
    then show ?thesis by (simp add: E2_def entsA [symmetric])
  next
    case False
    then have e2: "E1\<lparr>stackDepth := colliding + 1\<rparr> = E2" by (auto simp: E2_def)
    have "putEnt scA E2 = scA\<lparr>ents := ents sc @ [E2]\<rparr>"
      using entsA ne id by (intro putEnt_last [where a = E1]) simp_all
    with False show ?thesis
      by (auto simp: itemChange_def dimsA cl xy bindE_def getStack_def Let_def e2)
  qed
  have step3: "putEnt (scA\<lparr>ents := ents sc @ [E2]\<rparr>) E3 = scA\<lparr>ents := ents sc @ [E3]\<rparr>"
    using ne id by (subst putEnt_last [where es = "ents sc" and a = E2]) simp_all
  have res: "Entity_init sc x y info resp snap colliding = Inr (scA\<lparr>ents := ents sc @ [E3]\<rparr>, E3)"
    unfolding Entity_init_def E0_def [symmetric] step1 bindE_def
    by (simp add: step2 step3 Let_def E3_def [symmetric])
  have dA: "doors scA = doors (updateBlockedDoor sc E0 False resp)"
    by (simp add: scA_def updateBlockedDoor_def E1_def E0_def newEntity_def split: option.splits)
  have fieldsA: "roomInfo scA = roomInfo sc" "nextId scA = Suc (nextId sc)"
    by (simp_all add: scA_def updateBlockedDoor_def split: option.splits)
  have e3: "entity_x E3 = x" "entity_y E3 = y" "blocksDoor E3 = info_blocksDoor info" "zValue E3 = 0"
    by (simp_all add: E3_def E2_def E1_def E0_def newEntity_def)
  show ?thesis
    using res dA fieldsA dimsA id e3 unfolding E0_def by simp
qed

lemma remove_entity_found:
  assumes "find (\<lambda>e. ident e = i) (ents sc) = Some self"
  shows "\<exists>sc2. remove_entity sc i = Inr sc2 \<and>
           doors sc2 = doors (updateBlockedDoor sc self True False) \<and>
           roomInfo sc2 = roomInfo sc \<and> roomWidth sc2 = roomWidth sc \<and> roomHeight sc2 = roomHeight sc \<and>
           nextId sc2 = nextId sc \<and> ents sc2 = filter (\<lambda>e. ident e \<noteq> i) (ents sc)"
  using assms by (simp add: remove_entity_def Let_def updateBlockedDoor_def split: option.splits)
lemma updateBlockedDoor_doors:
  assumes "blocksDoor self" "inFrontOfDoor (roomInfo sc) (entity_x self) (entity_y self) = Some bd"
    and "k < length (doors sc)" "sameCell (doors sc ! k) bd" "\<forall>j<k. \<not> sameCell (doors sc ! j) bd"
  shows "doors (updateBlockedDoor sc self v c) = (doors sc)[k := visitDoor (doors sc ! k) v c]"
  using assms by (simp add: updateBlockedDoor_def updateDoors_nth)

lemma visitDoor_add_open:
  "door_exists d \<Longrightarrow> blockingCount d = 0 \<Longrightarrow>
   blockingCount (visitDoor d False False) = 1 \<and> \<not> door_exists (visitDoor d False False)"
  by (simp add: visitDoor_def door_exists_def set_exists_def Let_def)

lemma visitDoor_remove_closed:
  "\<not> door_exists d \<Longrightarrow> blockingCount d = 1 \<Longrightarrow>
   blockingCount (visitDoor d True False) = 0 \<and> \<not> door_exists (visitDoor d True False)"
  by (simp add: visitDoor_def door_exists_def set_exists_def Let_def)


text \<open>
  Claim C2. Take a cell inside the grid that faces a door, the door being open with
  blocking count 0 and the first of the scene's doors at its coordinates. Inserting a
  door-blocking entity there (not count-only) gives blocking count 1 and closes the
  door; removing that entity gives blocking count 0 and the door stays closed; the
  manual toggle opens it; inserting the entity again closes it again.
\<close>

theorem door_blocking_scenario:
  assumes inside: "0 \<le> x" "x < roomWidth sc" "0 \<le> y" "y < roomHeight sc"
    and blocks: "info_blocksDoor info"
    and front: "inFrontOfDoor (roomInfo sc) x y = Some bd"
    and k: "k < length (doors sc)" "sameCell (doors sc ! k) bd" "\<forall>j<k. \<not> sameCell (doors sc ! j) bd"
    and start: "door_exists (doors sc ! k)" "blockingCount (doors sc ! k) = 0"
    and fresh: "\<forall>e\<in>set (ents sc). ident e < nextId sc"
  shows "\<exists>sc1 e1 sc2 sc4 e4.
      Entity_init sc x y info False snap c = Inr (sc1, e1) \<and>
      blockingCount (doors sc1 ! k) = 1 \<and> \<not> door_exists (doors sc1 ! k) \<and>
      remove_entity sc1 (ident e1) = Inr sc2 \<and>
      blockingCount (doors sc2 ! k) = 0 \<and> \<not> door_exists (doors sc2 ! k) \<and>
      door_exists (doors (mouseDoubleClickEvent sc2 k) ! k) \<and>
      Entity_init (mouseDoubleClickEvent sc2 k) x y info False snap' c' = Inr (sc4, e4) \<and>
      blockingCount (doors sc4 ! k) = 1 \<and> \<not> door_exists (doors sc4 ! k)"
proof -
  let ?E = "\<lambda>s. newEntity (nextId s) x y info False"
  have E: "blocksDoor (newEntity i x y info False)" "entity_x (newEntity i x y info False) = x"
    "entity_y (newEntity i x y info False) = y" for i
    using blocks by (simp_all add: newEntity_def)
  \<comment> \<open>the insert\<close>
  from Entity_init_inside [OF inside fresh, of info False snap c] obtain sc1 e1 where
    i1: "Entity_init sc x y info False snap c = Inr (sc1, e1)" and
    d1: "doors sc1 = doors (updateBlockedDoor sc (?E sc) False False)" and
    f1: "roomInfo sc1 = roomInfo sc" "roomWidth sc1 = roomWidth sc" "roomHeight sc1 = roomHeight sc"
        "nextId sc1 = Suc (nextId sc)" "ents sc1 = ents sc @ [e1]" and
    e1: "ident e1 = nextId sc" "entity_x e1 = x" "entity_y e1 = y" "blocksDoor e1 = info_blocksDoor info"
    by blast
  have D1: "doors sc1 = (doors sc)[k := visitDoor (doors sc ! k) False False]"
    unfolding d1 using k front by (intro updateBlockedDoor_doors) (simp_all add: E)
  from D1 k start have s1: "blockingCount (doors sc1 ! k) = 1" "\<not> door_exists (doors sc1 ! k)"
    by (simp_all add: visitDoor_add_open)
  have k1: "k < length (doors sc1)" "sameCell (doors sc1 ! k) bd" "\<forall>j<k. \<not> sameCell (doors sc1 ! j) bd"
    using k by (simp_all add: D1)
  \<comment> \<open>the removal\<close>
  have "find (\<lambda>e. ident e = ident e1) (ents sc1) = Some e1"
    unfolding f1 using fresh e1 by (intro find_fresh_append) auto
  from remove_entity_found [OF this] obtain sc2 where
    r2: "remove_entity sc1 (ident e1) = Inr sc2" and
    d2: "doors sc2 = doors (updateBlockedDoor sc1 e1 True False)" and
    f2: "roomInfo sc2 = roomInfo sc1" "roomWidth sc2 = roomWidth sc1" "roomHeight sc2 = roomHeight sc1"
        "nextId sc2 = nextId sc1" "ents sc2 = filter (\<lambda>e. ident e \<noteq> ident e1) (ents sc1)"
    by blast
  have D2: "doors sc2 = (doors sc1)[k := visitDoor (doors sc1 ! k) True False]"
    unfolding d2 using k1 front blocks e1 by (intro updateBlockedDoor_doors) (simp_all add: f1)
  from D2 k1 s1 have s2: "blockingCount (doors sc2 ! k) = 0" "\<not> door_exists (doors sc2 ! k)"
    by (simp_all add: visitDoor_remove_closed)
  have k2: "k < length (doors sc2)" "sameCell (doors sc2 ! k) bd" "\<forall>j<k. \<not> sameCell (doors sc2 ! j) bd"
    using k1 by (simp_all add: D2)
  \<comment> \<open>the manual toggle\<close>
  let ?sc3 = "mouseDoubleClickEvent sc2 k"
  have D3: "doors ?sc3 = (doors sc2)[k := set_exists (doors sc2 ! k) True]"
    using k2 s2 by (simp add: mouseDoubleClickEvent_def)
  have s3: "door_exists (doors ?sc3 ! k)" "blockingCount (doors ?sc3 ! k) = 0"
    using k2 s2 by (simp_all add: D3 door_exists_def set_exists_def)
  have k3: "k < length (doors ?sc3)" "sameCell (doors ?sc3 ! k) bd" "\<forall>j<k. \<not> sameCell (doors ?sc3 ! j) bd"
    using k2 by (simp_all add: D3)
  have f3: "roomInfo ?sc3 = roomInfo sc" "roomWidth ?sc3 = roomWidth sc" "roomHeight ?sc3 = roomHeight sc"
           "nextId ?sc3 = Suc (nextId sc)" "ents ?sc3 = ents sc2"
    using f1 f2 by (simp_all add: mouseDoubleClickEvent_def)
  \<comment> \<open>the second insert\<close>
  have inside3: "0 \<le> x" "x < roomWidth ?sc3" "0 \<le> y" "y < roomHeight ?sc3"
    using inside f3 by simp_all
  have fresh3: "\<forall>e\<in>set (ents ?sc3). ident e < nextId ?sc3"
    using fresh by (auto simp: f3 f2 f1)
  from Entity_init_inside [OF inside3 fresh3, of info False snap' c'] obtain sc4 e4 where
    i4: "Entity_init ?sc3 x y info False snap' c' = Inr (sc4, e4)" and
    d4: "doors sc4 = doors (updateBlockedDoor ?sc3 (?E ?sc3) False False)"
    by blast
  have D4: "doors sc4 = (doors ?sc3)[k := visitDoor (doors ?sc3 ! k) False False]"
    unfolding d4 using k3 front by (intro updateBlockedDoor_doors) (simp_all add: E f3)
  from D4 k3 s3 have s4: "blockingCount (doors sc4 ! k) = 1" "\<not> door_exists (doors sc4 ! k)"
    by (simp_all add: visitDoor_add_open)
  from i1 s1 r2 s2 s3 i4 s4 show ?thesis by blast
qed

lemma room1_facts:
  "(case newRoomSize 1 of
      Inl e \<Rightarrow> False
    | Inr sc \<Rightarrow> roomWidth sc = 15 \<and> roomHeight sc = 9 \<and> ents sc = [] \<and> nextId sc = 0 \<and>
                inFrontOfDoor (roomInfo sc) 7 1 = Some (7, 0, True) \<and>
                doors sc = [\<lparr>doorItem = (7, 0, True), blockingCount = 0\<rparr>,
                            \<lparr>doorItem = (0, 4, True), blockingCount = 0\<rparr>,
                            \<lparr>doorItem = (14, 4, True), blockingCount = 0\<rparr>,
                            \<lparr>doorItem = (7, 8, True), blockingCount = 0\<rparr>])"
  by code_simp

theorem door_blocking_scenario_witness:
  "\<exists>sc sc1 e1 sc2 sc4 e4.
      newRoomSize 1 = Inr sc \<and>
      door_exists (doors sc ! 0) \<and> blockingCount (doors sc ! 0) = 0 \<and>
      Entity_init sc 7 1 plainEntity False False 0 = Inr (sc1, e1) \<and>
      blockingCount (doors sc1 ! 0) = 1 \<and> \<not> door_exists (doors sc1 ! 0) \<and>
      remove_entity sc1 (ident e1) = Inr sc2 \<and>
      blockingCount (doors sc2 ! 0) = 0 \<and> \<not> door_exists (doors sc2 ! 0) \<and>
      door_exists (doors (mouseDoubleClickEvent sc2 0) ! 0) \<and>
      Entity_init (mouseDoubleClickEvent sc2 0) 7 1 plainEntity False False 0 = Inr (sc4, e4) \<and>
      blockingCount (doors sc4 ! 0) = 1 \<and> \<not> door_exists (doors sc4 ! 0)"
proof -
  from room1_facts obtain sc where
    sc: "newRoomSize 1 = Inr sc" and
    dims: "roomWidth sc = 15" "roomHeight sc = 9" and
    empty: "ents sc = []" and
    front: "inFrontOfDoor (roomInfo sc) 7 1 = Some (7, 0, True)" and
    ds: "doors sc = [\<lparr>doorItem = (7, 0, True), blockingCount = 0\<rparr>,
                     \<lparr>doorItem = (0, 4, True), blockingCount = 0\<rparr>,
                     \<lparr>doorItem = (14, 4, True), blockingCount = 0\<rparr>,
                     \<lparr>doorItem = (7, 8, True), blockingCount = 0\<rparr>]"
    by (auto split: sum.splits)
  have start: "door_exists (doors sc ! 0)" "blockingCount (doors sc ! 0) = 0"
    by (simp_all add: ds door_exists_def)
  have "\<exists>sc1 e1 sc2 sc4 e4.
      Entity_init sc 7 1 plainEntity False False 0 = Inr (sc1, e1) \<and>
      blockingCount (doors sc1 ! 0) = 1 \<and> \<not> door_exists (doors sc1 ! 0) \<and>
      remove_entity sc1 (ident e1) = Inr sc2 \<and>
      blockingCount (doors sc2 ! 0) = 0 \<and> \<not> door_exists (doors sc2 ! 0) \<and>
      door_exists (doors (mouseDoubleClickEvent sc2 0) ! 0) \<and>
      Entity_init (mouseDoubleClickEvent sc2 0) 7 1 plainEntity False False 0 = Inr (sc4, e4) \<and>
      blockingCount (doors sc4 ! 0) = 1 \<and> \<not> door_exists (doors sc4 ! 0)"
    by (rule door_blocking_scenario [where bd = "(7, 0, True)"])
       (simp_all add: dims empty front ds plainEntity_def sameCell_def door_exists_def)
  with sc start show ?thesis by blast
qed

lemma closed_door_facts:
  "(case newRoomSize 1 of
      Inl e \<Rightarrow> False
    | Inr sc \<Rightarrow>
        (case Entity_init (mouseDoubleClickEvent sc 0) 7 1 plainEntity False False 0 of
           Inl e \<Rightarrow> False
         | Inr (sc1, e1) \<Rightarrow>
             \<not> door_exists (doors (mouseDoubleClickEvent sc 0) ! 0) \<and>
             blockingCount (doors sc1 ! 0) = 1 \<and> \<not> door_exists (doors sc1 ! 0)))"
  by code_simp

theorem tracker_never_opens_witness:
  "\<exists>sc sc1 e1.
      newRoomSize 1 = Inr sc \<and>
      \<not> door_exists (doors (mouseDoubleClickEvent sc 0) ! 0) \<and>
      Entity_init (mouseDoubleClickEvent sc 0) 7 1 plainEntity False False 0 = Inr (sc1, e1) \<and>
      blockingCount (doors sc1 ! 0) = 1 \<and>
      neverOpened (mouseDoubleClickEvent sc 0) sc1 \<and> \<not> door_exists (doors sc1 ! 0)"
proof -
  from closed_door_facts obtain sc sc1 e1 where
    sc: "newRoomSize 1 = Inr sc" and
    ins: "Entity_init (mouseDoubleClickEvent sc 0) 7 1 plainEntity False False 0 = Inr (sc1, e1)" and
    d: "\<not> door_exists (doors (mouseDoubleClickEvent sc 0) ! 0)" "blockingCount (doors sc1 ! 0) = 1"
       "\<not> door_exists (doors sc1 ! 0)"
    by (auto split: sum.splits)
  from tracker_never_opens [of "mouseDoubleClickEvent sc 0" _ _ _ 7 1 plainEntity False False 0 sc1 e1] ins
  have "neverOpened (mouseDoubleClickEvent sc 0) sc1" by blast
  with sc ins d show ?thesis by blast
qed

section \<open>Stacking depths\<close>

text \<open>
  What the constructor does to the depths of a cell inside the grid: whatever the cell
  holds, \<open>n\<close> inserts add \<open>n\<close> entities of z-value 0.
\<close>

lemma insert_entity_inside:
  assumes "0 \<le> x" "x < roomWidth sc" "0 \<le> y" "y < roomHeight sc"
    and "\<forall>e\<in>set (ents sc). ident e < nextId sc"
  shows "\<exists>sc1 e1. insert_entity sc x y info resp = Inr sc1 \<and> ents sc1 = ents sc @ [e1] \<and>
           entity_x e1 = x \<and> entity_y e1 = y \<and> zValue e1 = 0 \<and>
           roomWidth sc1 = roomWidth sc \<and> roomHeight sc1 = roomHeight sc \<and>
           (\<forall>e\<in>set (ents sc1). ident e < nextId sc1)"
proof -
  from Entity_init_inside [OF assms, of info resp False 0] obtain sc1 e1 where
    *: "Entity_init sc x y info resp False 0 = Inr (sc1, e1)"
       "roomWidth sc1 = roomWidth sc" "roomHeight sc1 = roomHeight sc"
       "nextId sc1 = Suc (nextId sc)" "ents sc1 = ents sc @ [e1]"
       "ident e1 = nextId sc" "entity_x e1 = x" "entity_y e1 = y" "zValue e1 = 0"
    by blast
  from * assms(5) have "\<forall>e\<in>set (ents sc1). ident e < nextId sc1" by auto
  with * show ?thesis by (auto simp: insert_entity_def bindE_def)
qed

lemma insertN_depths:
  assumes "0 \<le> x" "x < roomWidth sc" "0 \<le> y" "y < roomHeight sc"
    and "\<forall>e\<in>set (ents sc). ident e < nextId sc"
  shows "\<exists>sc'. insertN n sc x y info resp = Inr sc' \<and>
           depthsAt sc' x y = depthsAt sc x y @ replicate n 0"
  using assms
proof (induction n arbitrary: sc)
  case 0
  then show ?case by simp
next
  case (Suc n)
  from insert_entity_inside [OF Suc.prems, of info resp] obtain sc1 e1 where
    s1: "insert_entity sc x y info resp = Inr sc1" "ents sc1 = ents sc @ [e1]"
        "entity_x e1 = x" "entity_y e1 = y" "zValue e1 = 0"
        "roomWidth sc1 = roomWidth sc" "roomHeight sc1 = roomHeight sc"
        "\<forall>e\<in>set (ents sc1). ident e < nextId sc1"
    by blast
  from Suc.prems s1 have "\<exists>sc'. insertN n sc1 x y info resp = Inr sc' \<and>
           depthsAt sc' x y = depthsAt sc1 x y @ replicate n 0"
    by (intro Suc.IH) simp_all
  then obtain sc' where r: "insertN n sc1 x y info resp = Inr sc'"
    "depthsAt sc' x y = depthsAt sc1 x y @ replicate n 0" by blast
  from s1 have "depthsAt sc1 x y = depthsAt sc x y @ [0]"
    by (simp add: depthsAt_def entsAt_def)
  with r s1 show ?case
    by (simp add: bindE_def replicate_app_Cons_same)
qed

text \<open>
  Claim C1, on the code. The constructor calls \<open>updateCoords(x, y)\<close> on an item that has
  no parent yet, and that branch returns before any z-value is assigned, so a new entity
  keeps the z-value 0 of a new graphics item. Two inserts into the empty cell \<open>(3, 3)\<close> of
  a 1x1 room leave the depths \<open>[0, 0]\<close> where the claim has \<open>{0, 1}\<close>: the second entity
  was not given the depth 1, the count of the cell.
\<close>

theorem insert_depths_all_zero:
  "bindE (newRoomSize 1) (\<lambda>sc. bindE (insertN 2 sc 3 3 plainEntity False) (\<lambda>sc2. Inr (depthsAt sc2 3 3)))
     = Inr [0, 0]"
  by code_simp

text \<open>\<open>Entity.remove\<close> takes the entity out and leaves every other entity as it was.\<close>

lemma remove_entity_depths:
  "remove_entity sc i = Inr sc' \<Longrightarrow> ents sc' = filter (\<lambda>e. ident e \<noteq> i) (ents sc)"
  by (auto simp: remove_entity_def Let_def split: option.splits)

text \<open>
  Claim C4, on the code. Three entities are brought into the cell \<open>(3, 3)\<close>, the second
  and third by moves, which stack them at depths 1 and 2. \<open>Entity.remove\<close> of the entity
  at depth 0 takes it out of its row and touches no other z-value: the depths left are
  \<open>[1, 2]\<close> where the claim has \<open>{0, 1}\<close>.
\<close>

theorem remove_leaves_gap:
  "bindE (newRoomSize 1) (\<lambda>sc0.
     bindE (insert_entity sc0 3 3 plainEntity False) (\<lambda>sc1.
     bindE (insert_entity sc1 4 3 plainEntity False) (\<lambda>sc2.
     bindE (insert_entity sc2 5 3 plainEntity False) (\<lambda>sc3.
     bindE (moveTo sc3 1 3 3) (\<lambda>sc4.
     bindE (moveTo sc4 2 3 3) (\<lambda>sc5.
     bindE (remove_entity sc5 0) (\<lambda>sc6. Inr (depthsAt sc5 3 3, depthsAt sc6 3 3))))))))
   = Inr ([0, 1, 2], [1, 2])"
  by code_simp

section \<open>Neighbour queries\<close>

text \<open>
  Claim C5, on the code. In a 1x1 room (15 columns) one entity stands at \<open>(14, 3)\<close> and
  the neighbours of \<open>(0, 4)\<close> are asked for. The cached query computes the index
  \<open>4 * 15 + (0 - 1) = 59\<close> for the left neighbour, which is inside the cache and is the
  cell \<open>(14, 3)\<close>: its list \<open>L\<close> holds the entity. The row scan finds nothing in column
  \<open>-1\<close>: its list \<open>L\<close> is empty.
\<close>

theorem cached_neighbours_wrap:
  "bindE (newRoomSize 1) (\<lambda>sc.
     bindE (insert_entity sc 14 3 plainEntity False) (\<lambda>sc1.
     bindE (rebuildCache sc1 (ents sc1)) (\<lambda>entCache.
     bindE (getAdjacentEnts_cache sc1 entCache 0 4) (\<lambda>res.
       Inr (map (map ident) res, map (map ident) (getAdjacentEnts_scan sc1 0 4))))))
   = Inr ([[0], [], [], [], [], [], [], []], [[], [], [], [], [], [], [], []])"
  by code_simp

section \<open>Pit frames\<close>

text \<open>
  Claim C6. Without extra frames, a pit whose only matching neighbour is the left one
  gets frame 1; a pit with matching neighbours on all four sides and in both upper
  corners but in neither lower corner gets frame 24, the rule "not DL and not DR"
  replacing the bitwise value 15.
\<close>

theorem pit_frame_vectors:
  "pitFrame False True False False False False False False False = 1 \<and>
   pitFrame False True True True True True False True False = 24"
  by (simp add: pitFrame_def pitRules_def)

section \<open>Rock pairing\<close>

lemma find_firstMatch:
  "firstMatchFree ov img stack \<Longrightarrow> unassigned (findMatchInStack ov img stack)"
proof -
  assume "firstMatchFree ov img stack"
  then obtain pre ent post where st: "stack = pre @ ent # post"
    and pre: "\<forall>p \<in> set pre. getCurrentImg ov p \<noteq> img"
    and ent: "getCurrentImg ov ent = img" "rockFrame ent = None"
    by (auto simp: firstMatchFree_def)
  from pre have "find (\<lambda>e. getCurrentImg ov e = img) (pre @ ent # post) = find (\<lambda>e. getCurrentImg ov e = img) (ent # post)"
    by (induction pre) auto
  with ent show ?thesis by (simp add: st unassigned_def findMatchInStack_def)
qed

lemma find_noMatch:
  "noMatchFree ov img stack \<Longrightarrow> \<not> unassigned (findMatchInStack ov img stack)"
  by (induction stack) (auto simp: noMatchFree_def unassigned_def findMatchInStack_def split: option.splits)

text \<open>
  Claim C7, as stated. The right-hand stack holds two rocks with the image looked for;
  the first already has frame 6, the second has none. The stack thus contains a matching
  placement without a frame, and the stack below is empty, yet the candidate list is
  empty: \<open>findMatchInStack\<close> returns the first matching placement only.
\<close>

theorem rock_first_match_assigned:
  "getCurrentImg (\<lambda>e. None) (newEntity 2 4 3 rockEntity False) = Some ''rocks.png'' \<and>
   rockFrame (newEntity 2 4 3 rockEntity False) = None \<and>
   rockCandidates (\<lambda>e. None) (Some ''rocks.png'')
     [(newEntity 1 4 3 rockEntity False)\<lparr>rockFrame := Some 6\<rparr>, newEntity 2 4 3 rockEntity False] [] [] = []"
  by (simp add: rockCandidates_def findMatchInStack_def unassigned_def getCurrentImg_def
                newEntity_def rockEntity_def)

text \<open>
  Claim C7, amended. The pairing pass is not reached when \<open>seed & 3\<close> is not 0. In the
  pass, if the first matching placement of the right stack has no frame and the stack
  below holds no matching placement without a frame, the candidates are exactly
  \<open>["2x1"]\<close>; if the first matching placement of each of the right, lower and lower-right
  stacks has no frame, they are exactly \<open>["2x1", "1x2", "2x2"]\<close>; and \<open>"2x2"\<close> is a
  candidate only when \<open>"2x1"\<close> and \<open>"1x2"\<close> both are.
\<close>

theorem rock_pairing_candidates:
  "(seed AND 3 \<noteq> 0 \<longrightarrow> pairingCandidates sc entCache ov self seed = Inr None) \<and>
   (firstMatchFree ov img right \<and> noMatchFree ov img down \<longrightarrow>
      rockCandidates ov img right down downRight = [''2x1'']) \<and>
   (firstMatchFree ov img right \<and> firstMatchFree ov img down \<and> firstMatchFree ov img downRight \<longrightarrow>
      rockCandidates ov img right down downRight = [''2x1'', ''1x2'', ''2x2'']) \<and>
   (''2x2'' \<in> set (rockCandidates ov img right down downRight) \<longrightarrow>
      ''2x1'' \<in> set (rockCandidates ov img right down downRight) \<and>
      ''1x2'' \<in> set (rockCandidates ov img right down downRight))"
proof (intro conjI impI)
  show "pairingCandidates sc entCache ov self seed = Inr None" if "seed AND 3 \<noteq> 0"
    using that by (simp add: pairingCandidates_def)
  show "rockCandidates ov img right down downRight = [''2x1'']"
    if "firstMatchFree ov img right \<and> noMatchFree ov img down"
    using that by (simp add: rockCandidates_def find_firstMatch find_noMatch)
  show "rockCandidates ov img right down downRight = [''2x1'', ''1x2'', ''2x2'']"
    if "firstMatchFree ov img right \<and> firstMatchFree ov img down \<and> firstMatchFree ov img downRight"
    using that by (simp add: rockCandidates_def find_firstMatch)
  assume "''2x2'' \<in> set (rockCandidates ov img right down downRight)"
  then show "''2x1'' \<in> set (rockCandidates ov img right down downRight)"
    and "''1x2'' \<in> set (rockCandidates ov img right down downRight)"
    by (auto simp: rockCandidates_def Let_def split: if_splits)
qed

theorem rock_pairing_candidates_witness:
  "firstMatchFree (\<lambda>e. None) (Some ''rocks.png'')
     [newEntity 0 4 3 plainEntity False, newEntity 1 4 3 rockEntity False] \<and>
   noMatchFree (\<lambda>e. None) (Some ''rocks.png'') [(newEntity 2 3 4 rockEntity False)\<lparr>rockFrame := Some 6\<rparr>] \<and>
   rockCandidates (\<lambda>e. None) (Some ''rocks.png'')
     [newEntity 0 4 3 plainEntity False, newEntity 1 4 3 rockEntity False]
     [(newEntity 2 3 4 rockEntity False)\<lparr>rockFrame := Some 6\<rparr>] [] = [''2x1'']"
proof -
  have a: "firstMatchFree (\<lambda>e. None) (Some ''rocks.png'')
     [newEntity 0 4 3 plainEntity False, newEntity 1 4 3 rockEntity False]"
    unfolding firstMatchFree_def
    by (rule exI [of _ "[newEntity 0 4 3 plainEntity False]"], rule exI [of _ "newEntity 1 4 3 rockEntity False"],
        rule exI [of _ "[]"])
       (simp add: getCurrentImg_def newEntity_def plainEntity_def rockEntity_def)
  have b: "noMatchFree (\<lambda>e. None) (Some ''rocks.png'') [(newEntity 2 3 4 rockEntity False)\<lparr>rockFrame := Some 6\<rparr>]"
    by (simp add: noMatchFree_def)
  from rock_pairing_candidates [where ov = "\<lambda>e. None" and img = "Some ''rocks.png''"
         and right = "[newEntity 0 4 3 plainEntity False, newEntity 1 4 3 rockEntity False]"
         and down = "[(newEntity 2 3 4 rockEntity False)\<lparr>rockFrame := Some 6\<rparr>]"
         and downRight = "[]"] a b
  show ?thesis by blast
qed

section \<open>The stack-depth ceiling\<close>

lemma paintRefused_full:
  "e \<in> set es \<Longrightarrow> entity_x e = x \<Longrightarrow> entity_y e = y \<Longrightarrow> stackDepth e = MAX_STACK_DEPTH \<Longrightarrow>
   paintRefused es x y paintID"
  by (induction es) auto

text \<open>
  What the test of \<open>tryToPaint\<close> does guarantee: when some entity standing on the target
  cell has its cached \<open>stackDepth\<close> equal to \<open>MAX_STACK_DEPTH = 25\<close>, nothing is created
  and the scene and the editor state are unchanged. \<open>stackDepth\<close> is what \<open>getStack\<close>
  last stored, on a hover or a position change of that entity.
\<close>

theorem tryToPaint_full_stack:
  assumes "paintCell sc cx cy snap = (x, y)"
    and "e \<in> set (ents sc)" and "entity_x e = x" and "entity_y e = y"
    and "stackDepth e = MAX_STACK_DEPTH"
  shows "tryToPaint sc ed cx cy snap colliding = Inr (sc, ed)"
  using assms paintRefused_full [of e "ents sc" x y]
  by (simp add: tryToPaint_def split: option.splits)

lemma hovered_stack_facts:
  "(case bindE (newRoomSize 1) (\<lambda>sc. bindE (insertN 25 sc 5 5 plainEntity True) (\<lambda>sc25. hover sc25 24 24)) of
      Inl err \<Rightarrow> False
    | Inr sc \<Rightarrow>
        length (entsAt sc 5 5) = 25 \<and> paintCell sc 5 5 False = (5, 5) \<and>
        (case find (\<lambda>e. ident e = 24) (ents sc) of
           None \<Rightarrow> False
         | Some e \<Rightarrow> e \<in> set (ents sc) \<and> entity_x e = 5 \<and> entity_y e = 5 \<and> stackDepth e = 25))"
  by code_simp

theorem tryToPaint_full_stack_witness:
  "\<exists>sc. bindE (newRoomSize 1) (\<lambda>sc. bindE (insertN 25 sc 5 5 plainEntity True) (\<lambda>sc25. hover sc25 24 24))
          = Inr sc \<and>
        length (entsAt sc 5 5) = 25 \<and>
        tryToPaint sc \<lparr>objectToPaint = Some plainEntity, lastTile = Some []\<rparr> 5 5 False 0
          = Inr (sc, \<lparr>objectToPaint = Some plainEntity, lastTile = Some []\<rparr>)"
proof -
  from hovered_stack_facts obtain sc e where
    sc: "bindE (newRoomSize 1) (\<lambda>sc. bindE (insertN 25 sc 5 5 plainEntity True) (\<lambda>sc25. hover sc25 24 24)) = Inr sc"
    and n: "length (entsAt sc 5 5) = 25" and cell: "paintCell sc 5 5 False = (5, 5)"
    and e: "e \<in> set (ents sc)" "entity_x e = 5" "entity_y e = 5" "stackDepth e = 25"
    by (auto split: sum.splits option.splits)
  from e have "stackDepth e = MAX_STACK_DEPTH" by (simp add: MAX_STACK_DEPTH_def)
  from tryToPaint_full_stack [OF cell e(1) e(2) e(3) this] sc n show ?thesis by blast
qed

text \<open>
  Claim C10, on the code. A room is loaded with 25 entities in the cell \<open>(5, 5)\<close>. Each
  was given \<open>stackDepth = 1\<close> by its constructor, and the \<open>getStack\<close> call made while the
  constructor positions the item (Qt sends the position change before it moves the item)
  sees the item still at the origin, where nothing collides with it. No pointer has
  hovered over the stack since. A paint on that cell finds no entity whose \<open>stackDepth\<close>
  is 25 and adds a 26th entity, where the claim has the insert rejected and the cell
  unchanged. The second part does not rest on what Qt reports at construction: even if
  every constructor counted the entities already in the cell, loading 26 entities and
  removing the one created 25th leaves 25 entities, none with \<open>stackDepth = 25\<close>, and
  the paint again adds a 26th.
\<close>

theorem tryToPaint_stale_stackDepth:
  "bindE (newRoomSize 1) (\<lambda>sc.
     bindE (loadStack sc 5 5 plainEntity (replicate 25 0)) (\<lambda>sc25.
     bindE (tryToPaint sc25 \<lparr>objectToPaint = Some plainEntity, lastTile = Some []\<rparr> 5 5 False 0)
       (\<lambda>(sc26, ed). Inr (length (entsAt sc25 5 5), length (entsAt sc26 5 5)))))
   = Inr (25, 26) \<and>
   bindE (newRoomSize 1) (\<lambda>sc.
     bindE (loadStack sc 5 5 plainEntity (map int [0..<26])) (\<lambda>sc26.
     bindE (remove_entity sc26 24) (\<lambda>sc25.
     bindE (tryToPaint sc25 \<lparr>objectToPaint = Some plainEntity, lastTile = Some []\<rparr> 5 5 False 25)
       (\<lambda>(sc26, ed). Inr (length (entsAt sc25 5 5), length (entsAt sc26 5 5))))))
   = Inr (25, 26)"
  by code_simp

end
